theory Spec2Isabelle
  imports Main
begin

section \<open>Data model\<close>

text \<open>
  \<^verbatim>\<open>transaction.interface.ts\<close>: the status enum and the transaction object. A \<^verbatim>\<open>Date\<close> is
  its millisecond timestamp. The metadata type is the generic parameter \<^verbatim>\<open>TMetadata\<close>.
\<close>

datatype TransactionStatus = Pending | Completed | RolledBack

text \<open>
  \<^verbatim>\<open>command.interface.ts\<close> is not among the sources; the interface is the one the README
  prints (\<^verbatim>\<open>type?: string\<close> plus application fields, here \<open>payload\<close>). Commands are
  JavaScript objects, so each one also has the name of its constructor, which
  \<^verbatim>\<open>NoProcessorFoundError\<close> reads: \<open>Some ''Object''\<close> for an object literal, the class name
  for a class instance, \<open>None\<close> when \<^verbatim>\<open>command.constructor\<close> is undefined.
\<close>

record command =
  type :: "string option"
  payload :: string
  constructor_name :: "string option"

record 'm transaction =
  id_tx :: string
  status :: TransactionStatus
  commands :: "command list"
  metadata :: "'m option"
  createdAt :: int
  updatedAt :: int

record 'm TransactionOptions =
  opt_id :: "string option"
  opt_metadata :: "'m option"

text \<open>The partial update that commit and rollback hand to \<^verbatim>\<open>findByIdAndUpdate\<close>.\<close>

record updates =
  upd_status :: TransactionStatus
  upd_updatedAt :: int

text \<open>
  \<^verbatim>\<open>errors.ts\<close>: thrown values, each with its message. \<^verbatim>\<open>Error\<close> is the built-in class,
  which the saga throws itself and which handlers and repositories may throw.
\<close>

datatype error = Error string | SagaliciousError string | NoProcessorFoundError string

definition new_NoProcessorFoundError :: "command \<Rightarrow> error" where
  "new_NoProcessorFoundError c =
     NoProcessorFoundError (''No processor found for command: '' @
       (case constructor_name c of
          Some n \<Rightarrow> if n = [] then ''object'' else n
        | None \<Rightarrow> ''object''))"

text \<open>
  \<^verbatim>\<open>processor.interface.ts\<close> and \<^verbatim>\<open>repository.interface.ts\<close>. The asynchronous methods act
  on the outside world \<open>'w\<close> and either resolve (\<open>None\<close>) or reject with an error. The
  transaction they are handed is read, not mutated. \<^verbatim>\<open>canProcess\<close> is the synchronous type
  guard of the interface, a predicate on the command.
\<close>

record ('w, 'm) CommandProcessor =
  canProcess :: "command \<Rightarrow> bool"
  process :: "command \<Rightarrow> 'm transaction \<Rightarrow> 'w \<Rightarrow> error option \<times> 'w"
  rollBack :: "command \<Rightarrow> 'm transaction \<Rightarrow> 'w \<Rightarrow> error option \<times> 'w"

record ('w, 'm) TransactionRepository =
  create :: "'m transaction \<Rightarrow> 'w \<Rightarrow> error option \<times> 'w"
  findByIdAndUpdate :: "string \<Rightarrow> updates \<Rightarrow> 'w \<Rightarrow> error option \<times> 'w"

record ('w, 'm) SagaConfig =
  processors :: "('w, 'm) CommandProcessor list"
  repository :: "('w, 'm) TransactionRepository option"

text \<open>
  What the saga takes from Node: \<^verbatim>\<open>crypto.randomUUID()\<close> and the clock behind
  \<^verbatim>\<open>new Date()\<close>.
\<close>

record 'w runtime =
  randomUUID :: "'w \<Rightarrow> string \<times> 'w"
  now :: "'w \<Rightarrow> int \<times> 'w"

text \<open>
  Every call the saga makes on a collaborator is recorded with its arguments, the processor
  by its position in the registered list. The repository's three query methods have events
  too, so that their absence from a run can be stated.
\<close>

datatype 'm event =
    ProcessCall nat command "'m transaction"
  | RollBackCall nat command "'m transaction"
  | CreateCall "'m transaction"
  | FindByIdAndUpdateCall string updates
  | FindByIdCall string
  | DeleteByIdCall string
  | FindByStatusCall TransactionStatus

record ('w, 'm) state =
  world :: 'w
  calls :: "'m event list"

definition invoke ::
  "'m event \<Rightarrow> ('w \<Rightarrow> error option \<times> 'w) \<Rightarrow> ('w, 'm) state \<Rightarrow> error option \<times> ('w, 'm) state" where
  "invoke ev f s =
     (case f (world s) of (r, w') \<Rightarrow> (r, \<lparr>world = w', calls = calls s @ [ev]\<rparr>))"

section \<open>The saga\<close>

datatype TransactionProcessAction = Commit | RollBack

text \<open>\<^verbatim>\<open>this.processors.find((p) => p.canProcess(command))\<close>, with the position found.\<close>

definition find_processor ::
  "('w, 'm) CommandProcessor list \<Rightarrow> command \<Rightarrow> (nat \<times> ('w, 'm) CommandProcessor) option" where
  "find_processor ps c = List.find (\<lambda>(i, p). canProcess p c) (enumerate 0 ps)"

text \<open>The \<^verbatim>\<open>for\<close> loop of \<^verbatim>\<open>processTransaction\<close>.\<close>

fun processCommands ::
  "('w, 'm) CommandProcessor list \<Rightarrow> 'm transaction \<Rightarrow> TransactionProcessAction \<Rightarrow>
   command list \<Rightarrow> ('w, 'm) state \<Rightarrow> error option \<times> ('w, 'm) state" where
  "processCommands ps tx action [] s = (None, s)"
| "processCommands ps tx action (c # cs) s =
     (case find_processor ps c of
        None \<Rightarrow> (Some (new_NoProcessorFoundError c), s)
      | Some (i, p) \<Rightarrow>
          (case (case action of
                   Commit \<Rightarrow> invoke (ProcessCall i c tx) (process p c tx) s
                 | RollBack \<Rightarrow> invoke (RollBackCall i c tx) (rollBack p c tx) s) of
             (Some e, s') \<Rightarrow> (Some e, s')
           | (None, s') \<Rightarrow> processCommands ps tx action cs s'))"

definition processTransaction ::
  "('w, 'm) SagaConfig \<Rightarrow> 'm transaction \<Rightarrow> TransactionProcessAction \<Rightarrow>
   ('w, 'm) state \<Rightarrow> error option \<times> ('w, 'm) state" where
  "processTransaction saga tx action s =
     (if id_tx tx = [] then (Some (Error ''Only initialized transactions can be processed''), s)
      else processCommands (processors saga) tx action
             (case action of RollBack \<Rightarrow> rev (commands tx) | Commit \<Rightarrow> commands tx) s)"

text \<open>
  \<^verbatim>\<open>initTransaction\<close>. The command list is \<open>None\<close> for \<^verbatim>\<open>null\<close>, the options \<open>None\<close> when the
  argument is left out. \<^verbatim>\<open>options?.id || randomUUID()\<close> calls the generator only when the
  supplied identifier is missing or the empty string. The two dates are two readings of
  the clock.
\<close>

definition initTransaction ::
  "'w runtime \<Rightarrow> ('w, 'm) SagaConfig \<Rightarrow> command list option \<Rightarrow> 'm TransactionOptions option \<Rightarrow>
   ('w, 'm) state \<Rightarrow> (error + 'm transaction) \<times> ('w, 'm) state" where
  "initTransaction rt saga cmds options s =
     (case cmds of
        None \<Rightarrow> (Inl (Error ''Commands can't be null or empty''), s)
      | Some cs \<Rightarrow>
          if length cs = 0 then (Inl (Error ''Commands can't be null or empty''), s)
          else
            (let (i, w1) = (case Option.bind options opt_id of
                              None \<Rightarrow> randomUUID rt (world s)
                            | Some x \<Rightarrow> if x = [] then randomUUID rt (world s) else (x, world s));
                 (t1, w2) = now rt w1;
                 (t2, w3) = now rt w2;
                 tx = \<lparr>id_tx = i, status = Pending, commands = cs,
                       metadata = Option.bind options opt_metadata,
                       createdAt = t1, updatedAt = t2\<rparr>;
                 s3 = s\<lparr>world := w3\<rparr>
             in (case repository saga of
                   None \<Rightarrow> (Inr tx, s3)
                 | Some repo \<Rightarrow>
                     (case invoke (CreateCall tx) (create repo tx) s3 of
                        (Some e, s4) \<Rightarrow> (Inl e, s4)
                      | (None, s4) \<Rightarrow> (Inr tx, s4)))))"

text \<open>
  \<^verbatim>\<open>commitTransaction\<close> and \<^verbatim>\<open>rollBackTransaction\<close> mutate the transaction object they are
  given; the model returns it next to the outcome (\<open>Some e\<close> when the call rejects with
  \<open>e\<close>), as the object is left also when the call throws.
\<close>

definition commitTransaction ::
  "'w runtime \<Rightarrow> ('w, 'm) SagaConfig \<Rightarrow> 'm transaction \<Rightarrow>
   ('w, 'm) state \<Rightarrow> error option \<times> 'm transaction \<times> ('w, 'm) state" where
  "commitTransaction rt saga tx s =
     (case processTransaction saga tx Commit s of
        (Some e, s1) \<Rightarrow> (Some e, tx, s1)
      | (None, s1) \<Rightarrow>
          (let (t, w2) = now rt (world s1);
               tx1 = tx\<lparr>status := Completed, updatedAt := t\<rparr>;
               s2 = s1\<lparr>world := w2\<rparr>
           in (case repository saga of
                 None \<Rightarrow> (None, tx1, s2)
               | Some repo \<Rightarrow>
                   (let u = \<lparr>upd_status = Completed, upd_updatedAt = updatedAt tx1\<rparr>
                    in (case invoke (FindByIdAndUpdateCall (id_tx tx1) u)
                               (findByIdAndUpdate repo (id_tx tx1) u) s2 of
                          (r, s3) \<Rightarrow> (r, tx1, s3))))))"

definition rollBackTransaction ::
  "'w runtime \<Rightarrow> ('w, 'm) SagaConfig \<Rightarrow> 'm transaction \<Rightarrow>
   ('w, 'm) state \<Rightarrow> error option \<times> 'm transaction \<times> ('w, 'm) state" where
  "rollBackTransaction rt saga tx s =
     (case processTransaction saga tx RollBack s of
        (Some e, s1) \<Rightarrow> (Some e, tx, s1)
      | (None, s1) \<Rightarrow>
          (let (t, w2) = now rt (world s1);
               tx1 = tx\<lparr>status := RolledBack, updatedAt := t\<rparr>;
               s2 = s1\<lparr>world := w2\<rparr>
           in (case repository saga of
                 None \<Rightarrow> (None, tx1, s2)
               | Some repo \<Rightarrow>
                   (let u = \<lparr>upd_status = RolledBack, upd_updatedAt = updatedAt tx1\<rparr>
                    in (case invoke (FindByIdAndUpdateCall (id_tx tx1) u)
                               (findByIdAndUpdate repo (id_tx tx1) u) s2 of
                          (r, s3) \<Rightarrow> (r, tx1, s3))))))"

text \<open>
  \<^verbatim>\<open>execute\<close>. The result is the outcome (\<open>None\<close>: the promise resolves with the
  transaction; \<open>Some e\<close>: it rejects with \<open>e\<close>), the transaction object as it is left
  (\<open>None\<close> when none was created), and the state. In the \<^verbatim>\<open>catch\<close> block a rejection of
  \<^verbatim>\<open>rollBackTransaction\<close> leaves the block before \<^verbatim>\<open>throw error\<close> is reached.
\<close>

definition execute ::
  "'w runtime \<Rightarrow> ('w, 'm) SagaConfig \<Rightarrow> command list option \<Rightarrow> 'm TransactionOptions option \<Rightarrow>
   ('w, 'm) state \<Rightarrow> error option \<times> 'm transaction option \<times> ('w, 'm) state" where
  "execute rt saga cmds options s =
     (case initTransaction rt saga cmds options s of
        (Inl e, s1) \<Rightarrow> (Some e, None, s1)
      | (Inr tx, s1) \<Rightarrow>
          (case commitTransaction rt saga tx s1 of
             (None, tx1, s2) \<Rightarrow> (None, Some tx1, s2)
           | (Some e, tx1, s2) \<Rightarrow>
               (case rollBackTransaction rt saga tx1 s2 of
                  (None, tx2, s3) \<Rightarrow> (Some e, Some tx2, s3)
                | (Some e', tx2, s3) \<Rightarrow> (Some e', Some tx2, s3))))"

text \<open>
  \<^verbatim>\<open>handler.adapter.ts\<close>: the processor that the builder's \<^verbatim>\<open>handler\<close> makes of a
  \<^verbatim>\<open>HandlerConfig\<close>.
\<close>

record ('w, 'm) HandlerConfig =
  cfg_type :: string
  cfg_execute :: "command \<Rightarrow> 'm transaction \<Rightarrow> 'w \<Rightarrow> error option \<times> 'w"
  cfg_rollback :: "command \<Rightarrow> 'm transaction \<Rightarrow> 'w \<Rightarrow> error option \<times> 'w"

definition HandlerAdapter :: "('w, 'm) HandlerConfig \<Rightarrow> ('w, 'm) CommandProcessor" where
  "HandlerAdapter config =
     \<lparr>canProcess = (\<lambda>c. type c = Some (cfg_type config)),
      process = cfg_execute config,
      rollBack = cfg_rollback config\<rparr>"

section \<open>Reading a run\<close>

text \<open>
  The position of the first registered processor that accepts a command (the number of
  processors when none does), and the call a pass makes for a command it reaches.
\<close>

definition first_index :: "('w, 'm) CommandProcessor list \<Rightarrow> command \<Rightarrow> nat" where
  "first_index ps c = (case find_processor ps c of Some (i, p) \<Rightarrow> i | None \<Rightarrow> length ps)"

definition call_event ::
  "TransactionProcessAction \<Rightarrow> ('w, 'm) CommandProcessor list \<Rightarrow> 'm transaction \<Rightarrow>
   command \<Rightarrow> 'm event" where
  "call_event action ps tx c =
     (case action of
        Commit \<Rightarrow> ProcessCall (first_index ps c) c tx
      | RollBack \<Rightarrow> RollBackCall (first_index ps c) c tx)"

definition first_match :: "('w, 'm) CommandProcessor list \<Rightarrow> command \<Rightarrow> nat \<Rightarrow> bool" where
  "first_match ps c i \<longleftrightarrow>
     i < length ps \<and> canProcess (ps ! i) c \<and> (\<forall>j<i. \<not> canProcess (ps ! j) c)"


text \<open>
  The apply calls and the compensate calls of a log, each as the position of the processor
  and the command; the calls of the storage port's query methods.
\<close>

fun applied :: "'m event \<Rightarrow> (nat \<times> command) option" where
  "applied (ProcessCall i c t) = Some (i, c)"
| "applied ev = None"

fun compensated :: "'m event \<Rightarrow> (nat \<times> command) option" where
  "compensated (RollBackCall i c t) = Some (i, c)"
| "compensated ev = None"

fun is_query_call :: "'m event \<Rightarrow> bool" where
  "is_query_call (FindByIdCall i) = True"
| "is_query_call (DeleteByIdCall i) = True"
| "is_query_call (FindByStatusCall st) = True"
| "is_query_call ev = False"

text \<open>
  The object \<^verbatim>\<open>initTransaction\<close> builds from a non-empty command list, with the world
  after the identifier and the two dates have been taken.
\<close>

definition new_transaction ::
  "'w runtime \<Rightarrow> command list \<Rightarrow> 'm TransactionOptions option \<Rightarrow> 'w \<Rightarrow> 'm transaction \<times> 'w" where
  "new_transaction rt cs options w =
     (let iw = (case Option.bind options opt_id of
                  None \<Rightarrow> randomUUID rt w
                | Some x \<Rightarrow> if x = [] then randomUUID rt w else (x, w));
          t1 = now rt (snd iw);
          t2 = now rt (snd t1)
      in (\<lparr>id_tx = fst iw, status = Pending, commands = cs,
           metadata = Option.bind options opt_metadata,
           createdAt = fst t1, updatedAt = fst t2\<rparr>, snd t2))"

text \<open>
  What \<^verbatim>\<open>commitTransaction\<close> and \<^verbatim>\<open>rollBackTransaction\<close> do once their pass has resolved:
  the status and the date are set on the object, then the storage port, if there is one,
  is handed the update.
\<close>

definition settle ::
  "'w runtime \<Rightarrow> ('w, 'm) SagaConfig \<Rightarrow> 'm transaction \<Rightarrow> TransactionStatus \<Rightarrow>
   ('w, 'm) state \<Rightarrow> error option \<times> 'm transaction \<times> ('w, 'm) state" where
  "settle rt saga tx st s =
     (let t = fst (now rt (world s));
          w = snd (now rt (world s));
          u = \<lparr>upd_status = st, upd_updatedAt = t\<rparr>
      in case repository saga of
           None \<Rightarrow> (None, tx\<lparr>status := st, updatedAt := t\<rparr>, s\<lparr>world := w\<rparr>)
         | Some repo \<Rightarrow>
             (fst (findByIdAndUpdate repo (id_tx tx) u w), tx\<lparr>status := st, updatedAt := t\<rparr>,
              \<lparr>world = snd (findByIdAndUpdate repo (id_tx tx) u w),
               calls = calls s @ [FindByIdAndUpdateCall (id_tx tx) u]\<rparr>))"

text \<open>The message of an error, and whether a message contains a given text.\<close>

definition message :: "error \<Rightarrow> string" where
  "message e = (case e of Error m \<Rightarrow> m | SagaliciousError m \<Rightarrow> m | NoProcessorFoundError m \<Rightarrow> m)"

definition mentions :: "string \<Rightarrow> string \<Rightarrow> bool" where
  "mentions t m = list_ex (\<lambda>i. take (length t) (drop i m) = t) [0..<Suc (length m)]"

text \<open>
  A caller holding a transaction can call \<^verbatim>\<open>commitTransaction\<close> and
  \<^verbatim>\<open>rollBackTransaction\<close> on it in any order, catching what they throw.
\<close>

datatype operation = CommitOp | RollBackOp

fun apply_operation ::
  "'w runtime \<Rightarrow> ('w, 'm) SagaConfig \<Rightarrow> operation \<Rightarrow> 'm transaction \<times> ('w, 'm) state \<Rightarrow>
   'm transaction \<times> ('w, 'm) state" where
  "apply_operation rt saga CommitOp (tx, s) = snd (commitTransaction rt saga tx s)"
| "apply_operation rt saga RollBackOp (tx, s) = snd (rollBackTransaction rt saga tx s)"

definition apply_operations ::
  "'w runtime \<Rightarrow> ('w, 'm) SagaConfig \<Rightarrow> operation list \<Rightarrow> 'm transaction \<times> ('w, 'm) state \<Rightarrow>
   'm transaction \<times> ('w, 'm) state" where
  "apply_operations rt saga ops = fold (apply_operation rt saga) ops"

section \<open>Example collaborators\<close>

text \<open>
  A world that is only a clock: each reading advances it by one. Handlers and repositories
  that always resolve or always reject.
\<close>

definition rt0 :: "nat runtime" where
  "rt0 = \<lparr>randomUUID = (\<lambda>w. (''3b241101-e2bb-4255-8caf-4136c566a962'', w)),
          now = (\<lambda>w. (int w, Suc w))\<rparr>"

definition s0 :: "(nat, unit) state" where
  "s0 = \<lparr>world = 1000, calls = []\<rparr>"

definition resolve :: "command \<Rightarrow> unit transaction \<Rightarrow> nat \<Rightarrow> error option \<times> nat" where
  "resolve c t w = (None, w)"

definition reject :: "string \<Rightarrow> command \<Rightarrow> unit transaction \<Rightarrow> nat \<Rightarrow> error option \<times> nat" where
  "reject msg c t w = (Some (Error msg), w)"

definition cmd :: "string \<Rightarrow> command" where
  "cmd t = \<lparr>type = Some t, payload = [], constructor_name = Some ''Object''\<rparr>"

definition ok_handler :: "string \<Rightarrow> (nat, unit) CommandProcessor" where
  "ok_handler t = HandlerAdapter \<lparr>cfg_type = t, cfg_execute = resolve, cfg_rollback = resolve\<rparr>"

definition failing_handler :: "string \<Rightarrow> (nat, unit) CommandProcessor" where
  "failing_handler t =
     HandlerAdapter \<lparr>cfg_type = t, cfg_execute = reject ''apply failed'', cfg_rollback = resolve\<rparr>"

definition broken_handler :: "string \<Rightarrow> (nat, unit) CommandProcessor" where
  "broken_handler t =
     HandlerAdapter \<lparr>cfg_type = t, cfg_execute = reject ''apply failed'',
                     cfg_rollback = reject ''compensate failed''\<rparr>"

definition catch_all :: "(nat, unit) CommandProcessor" where
  "catch_all = \<lparr>canProcess = (\<lambda>c. True), process = resolve, rollBack = resolve\<rparr>"

definition ok_repository :: "(nat, unit) TransactionRepository" where
  "ok_repository = \<lparr>create = (\<lambda>t w. (None, w)), findByIdAndUpdate = (\<lambda>i u w. (None, w))\<rparr>"

definition failing_repository :: "(nat, unit) TransactionRepository" where
  "failing_repository =
     \<lparr>create = (\<lambda>t w. (Some (Error ''storage down''), w)),
      findByIdAndUpdate = (\<lambda>i u w. (Some (Error ''storage down''), w))\<rparr>"

definition update_failing_repository :: "(nat, unit) TransactionRepository" where
  "update_failing_repository =
     \<lparr>create = (\<lambda>t w. (None, w)),
      findByIdAndUpdate = (\<lambda>i u w. (Some (Error ''storage down''), w))\<rparr>"



definition saga_stored :: "(nat, unit) SagaConfig" where
  "saga_stored = \<lparr>processors = [ok_handler ''a''], repository = Some ok_repository\<rparr>"

definition saga_storage_down :: "(nat, unit) SagaConfig" where
  "saga_storage_down = \<lparr>processors = [ok_handler ''a''], repository = Some failing_repository\<rparr>"

definition tx_generated :: "unit transaction" where
  "tx_generated = \<lparr>id_tx = ''3b241101-e2bb-4255-8caf-4136c566a962'', status = Pending,
                   commands = [cmd ''a''], metadata = None, createdAt = 1000, updatedAt = 1001\<rparr>"

definition saga_failing :: "(nat, unit) SagaConfig" where
  "saga_failing = \<lparr>processors = [failing_handler ''a''], repository = None\<rparr>"

definition saga_broken :: "(nat, unit) SagaConfig" where
  "saga_broken = \<lparr>processors = [broken_handler ''a''], repository = None\<rparr>"

definition saga_update_down :: "(nat, unit) SagaConfig" where
  "saga_update_down = \<lparr>processors = [ok_handler ''a''], repository = Some update_failing_repository\<rparr>"

definition saga_shadowed :: "(nat, unit) SagaConfig" where
  "saga_shadowed = \<lparr>processors = [catch_all, failing_handler ''a''],
                    repository = Some ok_repository\<rparr>"

definition saga_abc :: "(nat, unit) SagaConfig" where
  "saga_abc = \<lparr>processors = [ok_handler ''a'', failing_handler ''b'', ok_handler ''c''],
               repository = None\<rparr>"

definition tx_abc :: "unit transaction" where
  "tx_abc = \<lparr>id_tx = ''3b241101-e2bb-4255-8caf-4136c566a962'', status = Pending,
             commands = [cmd ''a'', cmd ''b'', cmd ''c''], metadata = None,
             createdAt = 1000, updatedAt = 1001\<rparr>"

definition saga_empty :: "(nat, unit) SagaConfig" where
  "saga_empty = \<lparr>processors = [], repository = None\<rparr>"

lemmas run_defs = initTransaction_def commitTransaction_def rollBackTransaction_def execute_def
  new_NoProcessorFoundError_def
  processTransaction_def find_processor_def invoke_def enumerate_eq_zip Let_def

section \<open>Dispatch and the passes\<close>

lemma find_processor_Some:
  "find_processor ps c = Some (i, p) \<Longrightarrow>
     i < length ps \<and> ps ! i = p \<and> canProcess p c \<and> (\<forall>j<i. \<not> canProcess (ps ! j) c)"
  unfolding find_processor_def find_Some_iff
  by (auto simp: nth_enumerate_eq)

lemma find_processor_None:
  "find_processor ps c = None \<longleftrightarrow> (\<forall>p\<in>set ps. \<not> canProcess p c)"
  unfolding find_processor_def find_None_iff
  by (auto simp: enumerate_eq_zip in_set_zip in_set_conv_nth) (metis nth_mem)

lemma first_match_first_index:
  assumes "find_processor ps c \<noteq> None"
  shows "first_match ps c (first_index ps c)"
proof -
  from assms obtain i p where f: "find_processor ps c = Some (i, p)" by auto
  from find_processor_Some[OF f] f show ?thesis
    by (simp add: first_match_def first_index_def)
qed

lemma invoke_calls:
  "invoke ev f s = (r, s') \<Longrightarrow> calls s' = calls s @ [ev] \<and> (r, world s') = f (world s)"
  by (auto simp: invoke_def split: prod.splits)

lemma invoke_eq:
  "invoke ev f s = (fst (f (world s)), \<lparr>world = snd (f (world s)), calls = calls s @ [ev]\<rparr>)"
  by (simp add: invoke_def split: prod.splits)

lemma processCommands_append:
  "processCommands ps tx a (xs @ ys) s =
     (case processCommands ps tx a xs s of
        (None, s1) \<Rightarrow> processCommands ps tx a ys s1
      | (Some e, s1) \<Rightarrow> (Some e, s1))"
  by (induction xs arbitrary: s)
     (auto split: option.splits prod.splits TransactionProcessAction.splits)

text \<open>A pass that resolves has made one call for each command, in the order of the list.\<close>

lemma processCommands_resolved:
  "processCommands ps tx a cs s = (None, s') \<Longrightarrow>
     calls s' = calls s @ map (call_event a ps tx) cs \<and>
     (\<forall>c\<in>set cs. find_processor ps c \<noteq> None)"
proof (induction cs arbitrary: s)
  case Nil
  then show ?case by simp
next
  case (Cons c cs)
  then show ?case
    by (auto simp: call_event_def first_index_def dest!: invoke_calls
             split: option.splits prod.splits TransactionProcessAction.splits)
qed

text \<open>
  Whatever the outcome of a pass, it has made one call for each command of a prefix of the
  list, each on the first processor that accepts the command.
\<close>

lemma processCommands_calls:
  "processCommands ps tx a cs s = (r, s') \<Longrightarrow>
     \<exists>n\<le>length cs. calls s' = calls s @ map (call_event a ps tx) (take n cs) \<and>
        (\<forall>c\<in>set (take n cs). find_processor ps c \<noteq> None)"
proof (induction cs arbitrary: s)
  case Nil
  then show ?case by simp
next
  case (Cons c cs)
  show ?case
  proof (cases "find_processor ps c")
    case None
    with Cons.prems have "s' = s" by simp
    then show ?thesis by (intro exI[of _ 0]) simp
  next
    case (Some ip)
    obtain i p where ip: "ip = (i, p)" by (cases ip)
    define step where "step = (case a of
                   Commit \<Rightarrow> invoke (ProcessCall i c tx) (process p c tx) s
                 | RollBack \<Rightarrow> invoke (RollBackCall i c tx) (rollBack p c tx) s)"
    obtain r1 s1 where st: "step = (r1, s1)" by (cases step)
    have c1: "calls s1 = calls s @ [call_event a ps tx c]"
      using st Some ip unfolding step_def
      by (auto simp: call_event_def first_index_def dest!: invoke_calls
               split: TransactionProcessAction.splits)
    show ?thesis
    proof (cases r1)
      case None
      then have "processCommands ps tx a cs s1 = (r, s')"
        using Cons.prems Some ip st unfolding step_def by simp
      from Cons.IH[OF this] obtain n where n: "n \<le> length cs"
        "calls s' = calls s1 @ map (call_event a ps tx) (take n cs)"
        "\<forall>c\<in>set (take n cs). find_processor ps c \<noteq> None" by blast
      show ?thesis
        by (rule exI[of _ "Suc n"]) (use n c1 Some in auto)
    next
      case (Some e)
      then have "s' = s1"
        using Cons.prems \<open>find_processor ps c = Some ip\<close> ip st unfolding step_def by simp
      then show ?thesis
        by (intro exI[of _ "Suc 0"]) (use c1 \<open>find_processor ps c = Some ip\<close> in auto)
    qed
  qed
qed


section \<open>Initialization\<close>

lemma initTransaction_nonempty:
  assumes "cs \<noteq> []"
  shows "initTransaction rt saga (Some cs) options s =
     (let tx = fst (new_transaction rt cs options (world s));
          w = snd (new_transaction rt cs options (world s))
      in case repository saga of
           None \<Rightarrow> (Inr tx, s\<lparr>world := w\<rparr>)
         | Some repo \<Rightarrow>
             (case fst (create repo tx w) of None \<Rightarrow> Inr tx | Some e \<Rightarrow> Inl e,
              \<lparr>world = snd (create repo tx w), calls = calls s @ [CreateCall tx]\<rparr>))"
  using assms unfolding initTransaction_def new_transaction_def
  by (simp add: Let_def invoke_def split: prod.splits option.splits)

lemma new_transaction_fields:
  "commands (fst (new_transaction rt cs options w)) = cs"
  "status (fst (new_transaction rt cs options w)) = Pending"
  "metadata (fst (new_transaction rt cs options w)) = Option.bind options opt_metadata"
  "id_tx (fst (new_transaction rt cs options w)) =
     (case Option.bind options opt_id of
        None \<Rightarrow> fst (randomUUID rt w)
      | Some x \<Rightarrow> if x = [] then fst (randomUUID rt w) else x)"
  by (simp_all add: new_transaction_def Let_def split: option.splits)

lemma initTransaction_Inr:
  assumes "initTransaction rt saga cmds options s = (Inr tx, s')"
  shows "\<exists>cs. cmds = Some cs \<and> cs \<noteq> [] \<and> tx = fst (new_transaction rt cs options (world s))"
proof -
  from assms obtain cs where cs: "cmds = Some cs" "cs \<noteq> []"
    by (auto simp: initTransaction_def split: option.splits if_splits)
  from assms have "tx = fst (new_transaction rt cs options (world s))"
    unfolding cs(1) initTransaction_nonempty[OF cs(2)]
    by (auto simp: Let_def split: option.splits)
  with cs show ?thesis by blast
qed

text \<open>
  C5 (as amended). For a null and for an empty command list, and for any options,
  \<^verbatim>\<open>initTransaction\<close> rejects with the error whose message is
  \<^verbatim>\<open>Commands can't be null or empty\<close>, and it does so before any side effect: the world and
  the log of calls are unchanged, so the storage port's \<^verbatim>\<open>create\<close> has not been called.
\<close>

theorem init_rejects_missing_commands:
  "initTransaction rt saga None options s =
     (Inl (Error ''Commands can't be null or empty''), s) \<and>
   initTransaction rt saga (Some []) options s =
     (Inl (Error ''Commands can't be null or empty''), s)"
  by (simp add: initTransaction_def)

text \<open>
  C5 as stated fails on the message: the error for an empty list does not carry the text
  \<^verbatim>\<open>commands must not be null or empty\<close>.
\<close>

theorem init_rejects_missing_commands_counterexample:
  "fst (initTransaction rt0 saga_stored (Some []) None s0) \<noteq>
     Inl (Error ''commands must not be null or empty'')"
  by (simp add: initTransaction_def)

text \<open>
  C6 (as amended). For every non-empty command list, \<^verbatim>\<open>initTransaction\<close> builds a
  transaction whose commands are the input list in the same order, whose status is Pending
  and whose id is the caller-supplied identifier when a non-empty one is given and the
  freshly generated one otherwise (also when the supplied identifier is the empty string).
  It returns that transaction, unless a configured storage port's \<^verbatim>\<open>create\<close> rejects: then
  it rejects with that error.
\<close>

theorem init_builds_transaction:
  assumes "cs \<noteq> []"
  shows "\<exists>tx w. commands tx = cs \<and> status tx = Pending \<and>
           id_tx tx = (case Option.bind options opt_id of
                         None \<Rightarrow> fst (randomUUID rt (world s))
                       | Some x \<Rightarrow> if x = [] then fst (randomUUID rt (world s)) else x) \<and>
           fst (initTransaction rt saga (Some cs) options s) =
             (case repository saga of
                None \<Rightarrow> Inr tx
              | Some repo \<Rightarrow> (case fst (create repo tx w) of None \<Rightarrow> Inr tx | Some e \<Rightarrow> Inl e))"
proof -
  define tx where "tx = fst (new_transaction rt cs options (world s))"
  define w where "w = snd (new_transaction rt cs options (world s))"
  have "fst (initTransaction rt saga (Some cs) options s) =
             (case repository saga of
                None \<Rightarrow> Inr tx
              | Some repo \<Rightarrow> (case fst (create repo tx w) of None \<Rightarrow> Inr tx | Some e \<Rightarrow> Inl e))"
    by (simp add: initTransaction_nonempty[OF assms] Let_def tx_def w_def split: option.splits)
  then show ?thesis
    using new_transaction_fields[of rt cs options "world s"] unfolding tx_def[symmetric] by blast
qed

theorem init_builds_transaction_witness:
  "[cmd ''a''] \<noteq> [] \<and>
   fst (initTransaction rt0 saga_stored (Some [cmd ''a''])
          (Some \<lparr>opt_id = Some ''order-1'', opt_metadata = None\<rparr>) s0) =
     Inr \<lparr>id_tx = ''order-1'', status = Pending,
          commands = [cmd ''a''], metadata = None, createdAt = 1000, updatedAt = 1001\<rparr>"
proof -
  have h: "[cmd ''a''] \<noteq> []" by simp
  from init_builds_transaction[OF h, where options = "Some \<lparr>opt_id = Some ''order-1'', opt_metadata = None\<rparr>"
       and rt = rt0 and s = s0 and saga = saga_stored]
  obtain tx :: "unit transaction" where
    t: "commands tx = [cmd ''a'']" "status tx = Pending" "id_tx tx = ''order-1''"
       "fst (initTransaction rt0 saga_stored (Some [cmd ''a''])
          (Some \<lparr>opt_id = Some ''order-1'', opt_metadata = None\<rparr>) s0) = Inr tx"
    by (auto simp: saga_stored_def ok_repository_def)
  have "fst (initTransaction rt0 saga_stored (Some [cmd ''a''])
          (Some \<lparr>opt_id = Some ''order-1'', opt_metadata = None\<rparr>) s0) =
     Inr \<lparr>id_tx = ''order-1'', status = Pending,
          commands = [cmd ''a''], metadata = None, createdAt = 1000, updatedAt = 1001\<rparr>"
    by (simp add: initTransaction_def s0_def rt0_def cmd_def resolve_def HandlerAdapter_def
          ok_handler_def ok_repository_def saga_stored_def invoke_def Let_def)
  with t h show ?thesis by simp
qed

text \<open>
  C6 as stated fails at two inputs: with the empty string as supplied identifier the
  returned id is the generated one, and with a storage port whose \<^verbatim>\<open>create\<close> rejects no
  transaction is returned.
\<close>

theorem init_builds_transaction_counterexample:
  "fst (initTransaction rt0 saga_stored (Some [cmd ''a''])
          (Some \<lparr>opt_id = Some [], opt_metadata = None\<rparr>) s0) =
     Inr \<lparr>id_tx = ''3b241101-e2bb-4255-8caf-4136c566a962'', status = Pending,
          commands = [cmd ''a''], metadata = None, createdAt = 1000, updatedAt = 1001\<rparr> \<and>
   fst (initTransaction rt0 saga_storage_down (Some [cmd ''a'']) None s0) =
     Inl (Error ''storage down'')"
  by (simp add: initTransaction_def s0_def rt0_def cmd_def resolve_def HandlerAdapter_def
        ok_handler_def ok_repository_def failing_repository_def saga_stored_def saga_storage_down_def
        invoke_def Let_def)

text \<open>
  C10. A transaction that \<^verbatim>\<open>initTransaction\<close> returns has a non-empty id, given that
  \<^verbatim>\<open>randomUUID\<close> returns a non-empty string (Node's is 36 characters long): when the
  supplied identifier is missing or the empty string, the id is the generated one. Hence
  the guard of \<^verbatim>\<open>processTransaction\<close> is never taken for such a transaction, under either
  action and any saga: the call goes straight to the loop over the commands.
\<close>

theorem init_id_not_empty:
  assumes "initTransaction (rt :: 'w runtime) saga cmds options s = (Inr (tx :: 'm transaction), s')"
      and "fst (randomUUID rt (world s)) \<noteq> []"
  shows "id_tx tx \<noteq> [] \<and>
         (Option.bind options opt_id = None \<or> Option.bind options opt_id = Some [] \<longrightarrow>
            id_tx tx = fst (randomUUID rt (world s))) \<and>
         (\<forall>(saga' :: ('w, 'm) SagaConfig) a s2. processTransaction saga' tx a s2 =
            processCommands (processors saga') tx a
              (case a of RollBack \<Rightarrow> rev (commands tx) | Commit \<Rightarrow> commands tx) s2)"
proof -
  from initTransaction_Inr[OF assms(1)] obtain cs where
    "tx = fst (new_transaction rt cs options (world s))" by blast
  then have i: "id_tx tx = (case Option.bind options opt_id of
                         None \<Rightarrow> fst (randomUUID rt (world s))
                       | Some x \<Rightarrow> if x = [] then fst (randomUUID rt (world s)) else x)"
    by (simp add: new_transaction_fields)
  with assms(2) have ne: "id_tx tx \<noteq> []" by (auto split: option.splits if_splits)
  from i have "Option.bind options opt_id = None \<or> Option.bind options opt_id = Some [] \<longrightarrow>
            id_tx tx = fst (randomUUID rt (world s))" by auto
  with ne show ?thesis by (simp add: processTransaction_def)
qed

theorem init_id_not_empty_witness:
  "initTransaction rt0 saga_stored (Some [cmd ''a''])
     (Some \<lparr>opt_id = Some [], opt_metadata = None\<rparr>) s0 =
     (Inr tx_generated, \<lparr>world = 1002, calls = [CreateCall tx_generated]\<rparr>) \<and>
   fst (randomUUID rt0 (world s0)) \<noteq> [] \<and>
   id_tx tx_generated = fst (randomUUID rt0 (world s0)) \<and>
   processTransaction saga_stored tx_generated RollBack s0 =
     processCommands (processors saga_stored) tx_generated RollBack (rev (commands tx_generated)) s0"
proof -
  have i: "initTransaction rt0 saga_stored (Some [cmd ''a''])
     (Some \<lparr>opt_id = Some [], opt_metadata = None\<rparr>) s0 =
     (Inr tx_generated, \<lparr>world = 1002, calls = [CreateCall tx_generated]\<rparr>)"
    by (simp add: run_defs s0_def rt0_def cmd_def resolve_def HandlerAdapter_def ok_handler_def
          ok_repository_def saga_stored_def tx_generated_def)
  have u: "fst (randomUUID rt0 (world s0)) \<noteq> []" by (simp add: rt0_def)
  from init_id_not_empty[OF i u] i u show ?thesis by simp
qed

section \<open>Commit, rollback and execute\<close>

lemma commitTransaction_cases:
  "commitTransaction rt saga tx s =
     (case processTransaction saga tx Commit s of
        (Some e, s1) \<Rightarrow> (Some e, tx, s1)
      | (None, s1) \<Rightarrow> settle rt saga tx Completed s1)"
  unfolding commitTransaction_def settle_def
  by (simp add: Let_def invoke_def split: prod.splits option.splits)

lemma rollBackTransaction_cases:
  "rollBackTransaction rt saga tx s =
     (case processTransaction saga tx RollBack s of
        (Some e, s1) \<Rightarrow> (Some e, tx, s1)
      | (None, s1) \<Rightarrow> settle rt saga tx RolledBack s1)"
  unfolding rollBackTransaction_def settle_def
  by (simp add: Let_def invoke_def split: prod.splits option.splits)

lemma settle_transaction:
  "settle rt saga tx st s = (r, tx', s') \<Longrightarrow>
     tx' = tx\<lparr>status := st, updatedAt := fst (now rt (world s))\<rparr>"
  by (auto simp: settle_def Let_def split: option.splits)

lemma settle_calls:
  assumes "settle rt saga tx st s = (r, tx', s')"
  shows "calls s' = calls s @
           (case repository saga of
              None \<Rightarrow> []
            | Some repo \<Rightarrow> [FindByIdAndUpdateCall (id_tx tx)
                             \<lparr>upd_status = st, upd_updatedAt = fst (now rt (world s))\<rparr>])"
  using assms by (auto simp: settle_def Let_def split: option.splits)

lemma commitTransaction_transaction:
  assumes "commitTransaction rt saga tx s = (r, tx', s')"
  shows "tx' = tx \<or> (\<exists>t. tx' = tx\<lparr>status := Completed, updatedAt := t\<rparr>)"
  using assms unfolding commitTransaction_cases
  by (auto split: prod.splits option.splits dest!: settle_transaction)

lemma rollBackTransaction_transaction:
  assumes "rollBackTransaction rt saga tx s = (r, tx', s')"
  shows "tx' = tx \<or> (\<exists>t. tx' = tx\<lparr>status := RolledBack, updatedAt := t\<rparr>)"
  using assms unfolding rollBackTransaction_cases
  by (auto split: prod.splits option.splits dest!: settle_transaction)

lemma rollBackTransaction_resolved:
  assumes "rollBackTransaction rt saga tx s = (None, tx', s')"
  shows "status tx' = RolledBack"
  using assms unfolding rollBackTransaction_cases
  by (auto split: prod.splits option.splits dest!: settle_transaction)

lemma commitTransaction_resolved:
  assumes "commitTransaction rt saga tx s = (None, tx', s')"
  shows "status tx' = Completed"
  using assms unfolding commitTransaction_cases
  by (auto split: prod.splits option.splits dest!: settle_transaction)

text \<open>
  C1 (as amended). When the commit phase of \<^verbatim>\<open>execute\<close> rejects with an error \<open>e\<close>, \<^verbatim>\<open>execute\<close>
  runs \<^verbatim>\<open>rollBackTransaction\<close> on the same transaction object (same id, same commands) from
  the state the commit left. If the rollback resolves, \<^verbatim>\<open>execute\<close> rejects with \<open>e\<close> and the
  status is RolledBack; if the rollback itself rejects, \<^verbatim>\<open>execute\<close> rejects with the
  rollback's error, not with \<open>e\<close>.
\<close>

theorem execute_after_failed_commit:
  assumes "initTransaction rt saga cmds options s = (Inr tx, s1)"
      and "commitTransaction rt saga tx s1 = (Some e, tx1, s2)"
  shows "\<exists>r tx2 s3. rollBackTransaction rt saga tx1 s2 = (r, tx2, s3) \<and>
           id_tx tx1 = id_tx tx \<and> commands tx1 = commands tx \<and>
           execute rt saga cmds options s =
             (Some (case r of None \<Rightarrow> e | Some e' \<Rightarrow> e'), Some tx2, s3) \<and>
           (r = None \<longrightarrow> status tx2 = RolledBack)"
proof -
  obtain r tx2 s3 where rb: "rollBackTransaction rt saga tx1 s2 = (r, tx2, s3)"
    by (cases "rollBackTransaction rt saga tx1 s2")
  have same: "id_tx tx1 = id_tx tx \<and> commands tx1 = commands tx"
    using commitTransaction_transaction[OF assms(2)] by auto
  have "execute rt saga cmds options s =
             (Some (case r of None \<Rightarrow> e | Some e' \<Rightarrow> e'), Some tx2, s3)"
    using assms rb by (simp add: execute_def split: option.splits)
  moreover have "r = None \<longrightarrow> status tx2 = RolledBack"
    using rb rollBackTransaction_resolved by blast
  ultimately show ?thesis using rb same by blast
qed

theorem execute_after_failed_commit_witness:
  "initTransaction rt0 saga_failing (Some [cmd ''a'']) None s0 =
     (Inr tx_generated, \<lparr>world = 1002, calls = []\<rparr>) \<and>
   commitTransaction rt0 saga_failing tx_generated \<lparr>world = 1002, calls = []\<rparr> =
     (Some (Error ''apply failed''), tx_generated,
      \<lparr>world = 1002, calls = [ProcessCall 0 (cmd ''a'') tx_generated]\<rparr>) \<and>
   execute rt0 saga_failing (Some [cmd ''a'']) None s0 =
     (Some (Error ''apply failed''), Some (tx_generated\<lparr>status := RolledBack, updatedAt := 1002\<rparr>),
      \<lparr>world = 1003, calls = [ProcessCall 0 (cmd ''a'') tx_generated,
                              RollBackCall 0 (cmd ''a'') tx_generated]\<rparr>)"
proof -
  have i: "initTransaction rt0 saga_failing (Some [cmd ''a'']) None s0 =
     (Inr tx_generated, \<lparr>world = 1002, calls = []\<rparr>)"
    by (simp add: run_defs s0_def rt0_def cmd_def resolve_def reject_def HandlerAdapter_def
          failing_handler_def saga_failing_def tx_generated_def)
  have c: "commitTransaction rt0 saga_failing tx_generated \<lparr>world = 1002, calls = []\<rparr> =
     (Some (Error ''apply failed''), tx_generated,
      \<lparr>world = 1002, calls = [ProcessCall 0 (cmd ''a'') tx_generated]\<rparr>)"
    by (simp add: run_defs s0_def rt0_def cmd_def resolve_def reject_def HandlerAdapter_def
          failing_handler_def saga_failing_def tx_generated_def)
  have r: "rollBackTransaction rt0 saga_failing tx_generated
             \<lparr>world = 1002, calls = [ProcessCall 0 (cmd ''a'') tx_generated]\<rparr> =
     (None, tx_generated\<lparr>status := RolledBack, updatedAt := 1002\<rparr>,
      \<lparr>world = 1003, calls = [ProcessCall 0 (cmd ''a'') tx_generated,
                              RollBackCall 0 (cmd ''a'') tx_generated]\<rparr>)"
    by (simp add: run_defs s0_def rt0_def cmd_def resolve_def reject_def HandlerAdapter_def
          failing_handler_def saga_failing_def tx_generated_def)
  from execute_after_failed_commit[OF i c] r i c show ?thesis by auto
qed

text \<open>
  C1 as stated fails when the rollback rejects: with a handler whose apply rejects with
  \<^verbatim>\<open>apply failed\<close> and whose compensate rejects with \<^verbatim>\<open>compensate failed\<close>, the commit's error
  is the first and \<^verbatim>\<open>execute\<close> rejects with the second.
\<close>

theorem execute_after_failed_commit_counterexample:
  "initTransaction rt0 saga_broken (Some [cmd ''a'']) None s0 =
     (Inr tx_generated, \<lparr>world = 1002, calls = []\<rparr>) \<and>
   fst (commitTransaction rt0 saga_broken tx_generated \<lparr>world = 1002, calls = []\<rparr>) =
     Some (Error ''apply failed'') \<and>
   fst (execute rt0 saga_broken (Some [cmd ''a'']) None s0) = Some (Error ''compensate failed'')"
  by (simp add: run_defs s0_def rt0_def cmd_def reject_def HandlerAdapter_def broken_handler_def
        saga_broken_def tx_generated_def)

lemma apply_operation_status:
  "status tx \<noteq> Pending \<Longrightarrow> status (fst (apply_operation rt saga op (tx, s))) \<noteq> Pending"
proof (cases op)
  case CommitOp
  obtain r tx' s' where c: "commitTransaction rt saga tx s = (r, tx', s')"
    by (cases "commitTransaction rt saga tx s")
  assume "status tx \<noteq> Pending"
  with commitTransaction_transaction[OF c] c CommitOp show ?thesis by auto
next
  case RollBackOp
  obtain r tx' s' where c: "rollBackTransaction rt saga tx s = (r, tx', s')"
    by (cases "rollBackTransaction rt saga tx s")
  assume "status tx \<noteq> Pending"
  with rollBackTransaction_transaction[OF c] c RollBackOp show ?thesis by auto
qed

lemma apply_operations_status:
  "status (fst ts) \<noteq> Pending \<Longrightarrow> status (fst (apply_operations rt saga ops ts)) \<noteq> Pending"
  unfolding apply_operations_def
proof (induction ops arbitrary: ts)
  case Nil
  then show ?case by simp
next
  case (Cons op ops)
  obtain tx s where ts: "ts = (tx, s)" by (cases ts)
  from Cons.prems ts have "status (fst (apply_operation rt saga op ts)) \<noteq> Pending"
    using apply_operation_status by fastforce
  from Cons.IH[OF this] show ?case by simp
qed

text \<open>
  C4 (as amended). \<^verbatim>\<open>initTransaction\<close> returns a Pending transaction; a commit leaves the
  status as it was or sets it to Completed, a rollback leaves it as it was or sets it to
  RolledBack, and these are the only operations that write it. So no sequence of commits
  and rollbacks brings a transaction that has left Pending back to Pending, and an
  \<^verbatim>\<open>execute\<close> that resolves returns a Completed transaction. Neither operation looks at the
  current status: transitions between Completed and RolledBack are possible.
\<close>

theorem status_never_back_to_pending:
  "(status tx \<noteq> Pending \<longrightarrow> status (fst (apply_operations rt saga ops (tx, s))) \<noteq> Pending) \<and>
   (status (fst (snd (commitTransaction rt saga tx s))) = status tx \<or>
    status (fst (snd (commitTransaction rt saga tx s))) = Completed) \<and>
   (status (fst (snd (rollBackTransaction rt saga tx s))) = status tx \<or>
    status (fst (snd (rollBackTransaction rt saga tx s))) = RolledBack) \<and>
   (\<forall>tx' s'. initTransaction rt saga cmds options s = (Inr tx', s') \<longrightarrow> status tx' = Pending) \<and>
   (\<forall>tx' s'. execute rt saga cmds options s = (None, tx', s') \<longrightarrow>
       (\<exists>t. tx' = Some t \<and> status t = Completed))"
proof -
  have a: "status tx \<noteq> Pending \<longrightarrow> status (fst (apply_operations rt saga ops (tx, s))) \<noteq> Pending"
    using apply_operations_status[of "(tx, s)"] by simp
  obtain r1 t1 s1 where c: "commitTransaction rt saga tx s = (r1, t1, s1)"
    by (cases "commitTransaction rt saga tx s")
  have b: "status (fst (snd (commitTransaction rt saga tx s))) = status tx \<or>
    status (fst (snd (commitTransaction rt saga tx s))) = Completed"
    using commitTransaction_transaction[OF c] c by auto
  obtain r2 t2 s2 where d: "rollBackTransaction rt saga tx s = (r2, t2, s2)"
    by (cases "rollBackTransaction rt saga tx s")
  have e: "status (fst (snd (rollBackTransaction rt saga tx s))) = status tx \<or>
    status (fst (snd (rollBackTransaction rt saga tx s))) = RolledBack"
    using rollBackTransaction_transaction[OF d] d by auto
  have f: "\<forall>tx' s'. initTransaction rt saga cmds options s = (Inr tx', s') \<longrightarrow> status tx' = Pending"
    by (auto dest!: initTransaction_Inr simp: new_transaction_fields)
  have g: "\<forall>tx' s'. execute rt saga cmds options s = (None, tx', s') \<longrightarrow>
       (\<exists>t. tx' = Some t \<and> status t = Completed)"
    by (auto simp: execute_def split: prod.splits sum.splits option.splits
             dest: commitTransaction_resolved)
  from a b e f g show ?thesis by blast
qed

theorem status_never_back_to_pending_witness:
  "status (tx_generated\<lparr>status := RolledBack\<rparr>) \<noteq> Pending \<and>
   status (fst (apply_operations rt0 saga_stored [CommitOp, RollBackOp]
      (tx_generated\<lparr>status := RolledBack\<rparr>, s0))) \<noteq> Pending \<and>
   status (fst (snd (commitTransaction rt0 saga_stored (tx_generated\<lparr>status := RolledBack\<rparr>) s0))) = Completed"
proof -
  have h: "status (tx_generated\<lparr>status := RolledBack\<rparr>) \<noteq> Pending" by simp
  have c: "status (fst (snd (commitTransaction rt0 saga_stored (tx_generated\<lparr>status := RolledBack\<rparr>) s0))) = Completed"
    by (simp add: run_defs s0_def rt0_def cmd_def resolve_def HandlerAdapter_def ok_handler_def
          ok_repository_def saga_stored_def tx_generated_def)
  from status_never_back_to_pending[where tx = "tx_generated\<lparr>status := RolledBack\<rparr>" and rt = rt0
      and saga = saga_stored and ops = "[CommitOp, RollBackOp]" and s = s0] h c
  show ?thesis by blast
qed

text \<open>
  C4 as stated fails: on a transaction that \<^verbatim>\<open>initTransaction\<close> returned, a commit followed
  by a rollback takes the status from Completed to RolledBack, and a further commit takes
  it from RolledBack to Completed. Inside one \<^verbatim>\<open>execute\<close> too, when the storage port rejects
  the update of the commit: the compensate call is handed the transaction with status
  Completed, and the transaction ends RolledBack.
\<close>

theorem status_never_back_to_pending_counterexample:
  "initTransaction rt0 saga_stored (Some [cmd ''a'']) None s0 =
     (Inr tx_generated, \<lparr>world = 1002, calls = [CreateCall tx_generated]\<rparr>) \<and>
   status (fst (apply_operations rt0 saga_stored [CommitOp]
     (tx_generated, \<lparr>world = 1002, calls = [CreateCall tx_generated]\<rparr>))) = Completed \<and>
   status (fst (apply_operations rt0 saga_stored [CommitOp, RollBackOp]
     (tx_generated, \<lparr>world = 1002, calls = [CreateCall tx_generated]\<rparr>))) = RolledBack \<and>
   status (fst (apply_operations rt0 saga_stored [CommitOp, RollBackOp, CommitOp]
     (tx_generated, \<lparr>world = 1002, calls = [CreateCall tx_generated]\<rparr>))) = Completed \<and>
   map_option status (fst (snd (execute rt0 saga_update_down (Some [cmd ''a'']) None s0))) =
     Some RolledBack \<and>
   calls (snd (snd (execute rt0 saga_update_down (Some [cmd ''a'']) None s0))) ! 3 =
     RollBackCall 0 (cmd ''a'') (tx_generated\<lparr>status := Completed, updatedAt := 1002\<rparr>)"
  by (simp add: run_defs s0_def rt0_def cmd_def resolve_def HandlerAdapter_def ok_handler_def
        ok_repository_def update_failing_repository_def saga_stored_def saga_update_down_def
        tx_generated_def apply_operations_def)

section \<open>The calls of a run\<close>

lemma map_filter_append: "List.map_filter f (xs @ ys) = List.map_filter f xs @ List.map_filter f ys"
  by (simp add: List.map_filter_def)

lemma applied_call_events:
  "List.map_filter applied (map (call_event Commit ps tx) cs) = map (\<lambda>c. (first_index ps c, c)) cs"
  "List.map_filter applied (map (call_event RollBack ps tx) cs) = []"
  "List.map_filter compensated (map (call_event RollBack ps tx) cs) = map (\<lambda>c. (first_index ps c, c)) cs"
  "List.map_filter compensated (map (call_event Commit ps tx) cs) = []"
  by (induction cs) (simp_all add: call_event_def)

lemma processCommands_prefix_resolves:
  assumes matched: "\<forall>c\<in>set cs. \<exists>p\<in>set ps. canProcess p c"
      and applies: "\<forall>k s2 i p. k < length cs \<and>
                      processCommands ps tx Commit (take k cs) s1 = (None, s2) \<and>
                      find_processor ps (cs ! k) = Some (i, p) \<longrightarrow>
                      fst (process p (cs ! k) tx (world s2)) = None"
  shows "k \<le> length cs \<Longrightarrow> \<exists>s2. processCommands ps tx Commit (take k cs) s1 = (None, s2)"
proof (induction k)
  case 0
  then show ?case by simp
next
  case (Suc k)
  then have k: "k < length cs" by simp
  from Suc obtain s2 where s2: "processCommands ps tx Commit (take k cs) s1 = (None, s2)"
    by auto
  from matched k have "find_processor ps (cs ! k) \<noteq> None"
    by (simp add: find_processor_None)
  then obtain i p where f: "find_processor ps (cs ! k) = Some (i, p)" by auto
  from applies k s2 f have ok: "fst (process p (cs ! k) tx (world s2)) = None" by blast
  have "processCommands ps tx Commit (take k cs @ [cs ! k]) s1 =
          (None, \<lparr>world = snd (process p (cs ! k) tx (world s2)),
                  calls = calls s2 @ [ProcessCall i (cs ! k) tx]\<rparr>)"
    unfolding processCommands_append using s2 f ok by (simp add: invoke_eq)
  then show ?case using take_Suc_conv_app_nth[OF k] by auto
qed

text \<open>
  C7 (as amended). For every non-empty command list in which every command is accepted by
  some registered processor and every apply step of the run resolves (whenever the steps
  before a command have resolved, the apply step of the processor the command is
  dispatched to resolves in the world they left), and with a storage port, if one is
  configured, whose \<^verbatim>\<open>create\<close> call and \<^verbatim>\<open>findByIdAndUpdate\<close> call of the run resolve,
  \<^verbatim>\<open>execute\<close> returns a transaction with status Completed; the apply calls it has made are
  one per command, in the order of the list, each on the first processor accepting the
  command, and it has made no compensate call. Nothing is asked of processors that are
  never dispatched to, nor of calls the run does not make. (The generated identifier is
  taken to be non-empty.)
\<close>

theorem execute_completes:
  assumes nonempty: "cs \<noteq> []"
      and uuid: "fst (randomUUID rt (world s)) \<noteq> []"
      and txn: "(txn :: 'm transaction) = fst (new_transaction rt cs options (world s))"
      and s1: "s1 = snd (initTransaction rt saga (Some cs) options s)"
      and created: "\<forall>repo. repository saga = Some repo \<longrightarrow>
                      fst (create repo txn (snd (new_transaction rt cs options (world s)))) = None"
      and matched: "\<forall>c\<in>set cs. \<exists>p\<in>set (processors saga). canProcess p c"
      and applies: "\<forall>k s2 i p. k < length cs \<and>
                      processCommands (processors saga) txn Commit (take k cs) s1 = (None, s2) \<and>
                      find_processor (processors saga) (cs ! k) = Some (i, p) \<longrightarrow>
                      fst (process p (cs ! k) txn (world s2)) = None"
      and updated: "\<forall>repo s2. repository saga = Some repo \<and>
                      processCommands (processors saga) txn Commit cs s1 = (None, s2) \<longrightarrow>
                      fst (findByIdAndUpdate repo (id_tx txn)
                             \<lparr>upd_status = Completed, upd_updatedAt = fst (now rt (world s2))\<rparr>
                             (snd (now rt (world s2)))) = None"
  shows "\<exists>tx s' evs. execute rt saga (Some cs) options s = (None, Some tx, s') \<and>
           status tx = Completed \<and> commands tx = cs \<and>
           calls s' = calls s @ evs \<and>
           List.map_filter applied evs = map (\<lambda>c. (first_index (processors saga) c, c)) cs \<and>
           (\<forall>c\<in>set cs. first_match (processors saga) c (first_index (processors saga) c)) \<and>
           List.map_filter compensated evs = []"
proof -
  define ps where "ps = processors saga"
  obtain evs1 where init: "initTransaction rt saga (Some cs) options s = (Inr txn, s1)"
    and c1: "calls s1 = calls s @ evs1" "List.map_filter applied evs1 = []"
            "List.map_filter compensated evs1 = []"
    using created unfolding s1 initTransaction_nonempty[OF nonempty] txn
    by (cases "repository saga") (auto simp: Let_def)
  have tx: "id_tx txn \<noteq> []" "commands txn = cs"
    using uuid by (auto simp: txn new_transaction_fields split: option.splits)
  from processCommands_prefix_resolves[OF matched applies, of "length cs"]
  obtain s2 where pass: "processCommands ps txn Commit cs s1 = (None, s2)"
    by (auto simp: ps_def)
  from processCommands_resolved[OF pass]
  have c2: "calls s2 = calls s1 @ map (call_event Commit ps txn) cs"
    and all: "\<forall>c\<in>set cs. find_processor ps c \<noteq> None" by auto
  define tx' where "tx' = txn\<lparr>status := Completed, updatedAt := fst (now rt (world s2))\<rparr>"
  obtain r3 s3 where st: "settle rt saga txn Completed s2 = (r3, tx', s3)"
    by (cases "settle rt saga txn Completed s2") (auto simp: tx'_def dest: settle_transaction)
  have "r3 = None"
    using st updated pass
    by (cases "repository saga") (auto simp: settle_def Let_def ps_def)
  with st have st: "settle rt saga txn Completed s2 = (None, tx', s3)" by simp
  define evs3 where "evs3 = (case repository saga of
              None \<Rightarrow> ([] :: 'm event list)
            | Some repo \<Rightarrow> [FindByIdAndUpdateCall (id_tx txn)
                             \<lparr>upd_status = Completed, upd_updatedAt = fst (now rt (world s2))\<rparr>])"
  from settle_calls[OF st] have c3: "calls s3 = calls s2 @ evs3" by (simp add: evs3_def)
  have e3: "List.map_filter applied evs3 = []" "List.map_filter compensated evs3 = []"
    by (simp_all add: evs3_def split: option.splits)
  have commit: "commitTransaction rt saga txn s1 = (None, tx', s3)"
    using pass tx st by (simp add: commitTransaction_cases processTransaction_def ps_def)
  have ex: "execute rt saga (Some cs) options s = (None, Some tx', s3)"
    using init commit by (simp add: execute_def)
  have calls: "calls s3 = calls s @ (evs1 @ map (call_event Commit ps txn) cs @ evs3)"
    using c1(1) c2 c3 by simp
  have ap: "List.map_filter applied (evs1 @ map (call_event Commit ps txn) cs @ evs3) =
          map (\<lambda>c. (first_index ps c, c)) cs"
    using c1(2) e3(1) by (simp add: map_filter_append applied_call_events)
  have co: "List.map_filter compensated (evs1 @ map (call_event Commit ps txn) cs @ evs3) = []"
    using c1(3) e3(2) by (simp add: map_filter_append applied_call_events)
  have fm: "\<forall>c\<in>set cs. first_match ps c (first_index ps c)"
    using all by (simp add: first_match_first_index)
  show ?thesis
    using ex calls ap co fm tx(2) unfolding ps_def
    by (intro exI[of _ tx'] exI[of _ s3]
              exI[of _ "evs1 @ map (call_event Commit (processors saga) txn) cs @ evs3"])
       (simp add: tx'_def)
qed

theorem execute_completes_witness:
  "[cmd ''a''] \<noteq> [] \<and>
   fst (randomUUID rt0 (world s0)) \<noteq> [] \<and>
   tx_generated = fst (new_transaction rt0 [cmd ''a''] None (world s0)) \<and>
   fst (process (failing_handler ''a'') (cmd ''a'') tx_generated 1002) = Some (Error ''apply failed'') \<and>
   fst (execute rt0 saga_shadowed (Some [cmd ''a'']) None s0) = None \<and>
   map_option status (fst (snd (execute rt0 saga_shadowed (Some [cmd ''a'']) None s0))) =
     Some Completed \<and>
   List.map_filter applied
     (calls (snd (snd (execute rt0 saga_shadowed (Some [cmd ''a'']) None s0)))) =
     [(0, cmd ''a'')]"
proof -
  define s1 where "s1 = snd (initTransaction rt0 saga_shadowed (Some [cmd ''a'']) None s0)"
  have h1: "[cmd ''a''] \<noteq> []" by simp
  have h2: "fst (randomUUID rt0 (world s0)) \<noteq> []" by (simp add: rt0_def)
  have h3: "tx_generated = fst (new_transaction rt0 [cmd ''a''] None (world s0))"
    by (simp add: new_transaction_def tx_generated_def rt0_def s0_def Let_def)
  have h4: "\<forall>repo. repository saga_shadowed = Some repo \<longrightarrow>
              fst (create repo tx_generated (snd (new_transaction rt0 [cmd ''a''] None (world s0)))) = None"
    by (simp add: saga_shadowed_def ok_repository_def)
  have h5: "\<forall>c\<in>set [cmd ''a'']. \<exists>p\<in>set (processors saga_shadowed). canProcess p c"
    by (simp add: saga_shadowed_def catch_all_def)
  have f: "find_processor (processors saga_shadowed) (cmd ''a'') = Some (0, catch_all)"
    by (simp add: find_processor_def enumerate_eq_zip saga_shadowed_def catch_all_def)
  have h6: "\<forall>k s2 i p. k < length [cmd ''a''] \<and>
              processCommands (processors saga_shadowed) tx_generated Commit (take k [cmd ''a'']) s1 =
                (None, s2) \<and>
              find_processor (processors saga_shadowed) ([cmd ''a''] ! k) = Some (i, p) \<longrightarrow>
              fst (process p ([cmd ''a''] ! k) tx_generated (world s2)) = None"
    using f by (auto simp: catch_all_def resolve_def)
  have h7: "\<forall>repo s2. repository saga_shadowed = Some repo \<and>
              processCommands (processors saga_shadowed) tx_generated Commit [cmd ''a''] s1 = (None, s2) \<longrightarrow>
              fst (findByIdAndUpdate repo (id_tx tx_generated)
                     \<lparr>upd_status = Completed, upd_updatedAt = fst (now rt0 (world s2))\<rparr>
                     (snd (now rt0 (world s2)))) = None"
    by (simp add: saga_shadowed_def ok_repository_def)
  have s: "fst (process (failing_handler ''a'') (cmd ''a'') tx_generated 1002) =
             Some (Error ''apply failed'')"
    by (simp add: failing_handler_def HandlerAdapter_def reject_def)
  from execute_completes[OF h1 h2 h3 s1_def h4 h5 h6 h7]
  obtain tx s' evs where
    e: "execute rt0 saga_shadowed (Some [cmd ''a'']) None s0 = (None, Some tx, s')"
       "status tx = Completed" "calls s' = calls s0 @ evs"
       "List.map_filter applied evs =
          map (\<lambda>c. (first_index (processors saga_shadowed) c, c)) [cmd ''a'']"
    by blast
  have "map (\<lambda>c. (first_index (processors saga_shadowed) c, c)) [cmd ''a''] = [(0, cmd ''a'')]"
    using f by (simp add: first_index_def)
  with e h1 h2 h3 s show ?thesis by (simp add: s0_def)
qed

text \<open>
  C7 as stated fails at the empty list, where nothing is left unmatched and \<^verbatim>\<open>execute\<close>
  rejects with the validation error, and with a storage port that rejects, where the
  command is accepted and its apply step resolves and \<^verbatim>\<open>execute\<close> rejects all the same.
\<close>

theorem execute_completes_counterexample:
  "fst (execute rt0 saga_stored (Some []) None s0) = Some (Error ''Commands can't be null or empty'') \<and>
   canProcess (ok_handler ''a'') (cmd ''a'') \<and>
   fst (process (ok_handler ''a'') (cmd ''a'') tx_generated 1002) = None \<and>
   fst (execute rt0 saga_storage_down (Some [cmd ''a'']) None s0) = Some (Error ''storage down'')"
  by (simp add: run_defs s0_def rt0_def cmd_def resolve_def HandlerAdapter_def ok_handler_def
        ok_repository_def failing_repository_def saga_stored_def saga_storage_down_def
        tx_generated_def)

lemma processCommands_failing_step:
  assumes k: "k < length cs"
      and before: "processCommands ps tx Commit (take k cs) s1 = (None, s2)"
      and found: "find_processor ps (cs ! k) = Some (i, p)"
      and fails: "process p (cs ! k) tx (world s2) = (Some e, w3)"
  shows "processCommands ps tx Commit cs s1 =
           (Some e, \<lparr>world = w3, calls = calls s2 @ [ProcessCall i (cs ! k) tx]\<rparr>)"
proof -
  have "processCommands ps tx Commit (take k cs @ cs ! k # drop (Suc k) cs) s1 =
           (Some e, \<lparr>world = w3, calls = calls s2 @ [ProcessCall i (cs ! k) tx]\<rparr>)"
    unfolding processCommands_append using before found fails by (simp add: invoke_eq)
  then show ?thesis using id_take_nth_drop[OF k] by simp
qed

lemma rollBackTransaction_calls:
  assumes idne: "id_tx tx \<noteq> []"
      and rb: "rollBackTransaction rt saga (tx :: 'm transaction) s = (r, tx', s')"
  shows "\<exists>n evs. n \<le> length (commands tx) \<and>
           calls s' = calls s @
             map (call_event RollBack (processors saga) tx) (take n (rev (commands tx))) @ evs \<and>
           List.map_filter applied evs = [] \<and> List.map_filter compensated evs = [] \<and>
           (r = None \<longrightarrow> n = length (commands tx))"
proof -
  obtain r1 s1 where p: "processCommands (processors saga) tx RollBack (rev (commands tx)) s = (r1, s1)"
    by (cases "processCommands (processors saga) tx RollBack (rev (commands tx)) s")
  with idne have pt: "processTransaction saga tx RollBack s = (r1, s1)"
    by (simp add: processTransaction_def)
  show ?thesis
  proof (cases r1)
    case (Some e)
    with pt rb have "r = Some e" "s' = s1" by (simp_all add: rollBackTransaction_cases)
    moreover from processCommands_calls[OF p] obtain n where
      "n \<le> length (commands tx)"
      "calls s1 = calls s @ map (call_event RollBack (processors saga) tx) (take n (rev (commands tx)))"
      by auto
    ultimately show ?thesis
      by (intro exI[of _ n] exI[of _ "[]"]) simp
  next
    case None
    with pt rb have se: "settle rt saga tx RolledBack s1 = (r, tx', s')"
      by (simp add: rollBackTransaction_cases)
    from processCommands_resolved[OF p[unfolded None]]
    have c1: "calls s1 = calls s @ map (call_event RollBack (processors saga) tx) (rev (commands tx))"
      by simp
    define evs where "evs = (case repository saga of
              None \<Rightarrow> ([] :: 'm event list)
            | Some repo \<Rightarrow> [FindByIdAndUpdateCall (id_tx tx)
                             \<lparr>upd_status = RolledBack, upd_updatedAt = fst (now rt (world s1))\<rparr>])"
    from settle_calls[OF se] have c2: "calls s' = calls s1 @ evs" by (simp add: evs_def)
    have e: "List.map_filter applied evs = []" "List.map_filter compensated evs = []"
      by (simp_all add: evs_def split: option.splits)
    show ?thesis
      by (intro exI[of _ "length (commands tx)"] exI[of _ evs]) (use c1 c2 e in simp)
  qed
qed

text \<open>
  C2 (as amended). Take a command list of length \<open>n\<close> and a position \<open>k\<close> in it such that
  every apply step before \<open>k\<close> resolves and the apply step of the command at \<open>k\<close> rejects
  with \<open>e\<close>. Then the commit rejects with \<open>e\<close>, and in the whole run of \<^verbatim>\<open>execute\<close> apply is
  called exactly for the commands up to \<open>k\<close>, in order, whatever the rollback does. The
  automatic rollback calls compensate for the commands of the reversed list, from the last
  command of the list downwards, up to the point where it stops. If the rollback resolves
  (every command of the list is accepted by a processor, every compensate step and the
  storage update resolve), compensate has been called for all \<open>n\<close> commands in reverse
  order, also for the commands after \<open>k\<close> that were never attempted; the status is
  RolledBack and \<^verbatim>\<open>execute\<close> rejects with \<open>e\<close>. If the rollback rejects, \<^verbatim>\<open>execute\<close> rejects
  with the rollback's error. (Positions count from 0; the generated identifier is taken
  to be non-empty.)
\<close>

theorem rollback_after_failed_apply:
  assumes init: "initTransaction rt saga (Some cs) options s = (Inr (tx :: 'm transaction), s1)"
      and uuid: "fst (randomUUID rt (world s)) \<noteq> []"
      and k: "k < length cs"
      and before: "processCommands (processors saga) tx Commit (take k cs) s1 = (None, s2)"
      and found: "find_processor (processors saga) (cs ! k) = Some (i, p)"
      and fails: "process p (cs ! k) tx (world s2) = (Some e, w3)"
  shows "i = first_index (processors saga) (cs ! k) \<and>
         calls s2 = calls s1 @ map (call_event Commit (processors saga) tx) (take k cs) \<and>
         commitTransaction rt saga tx s1 =
           (Some e, tx, \<lparr>world = w3, calls = calls s2 @ [ProcessCall i (cs ! k) tx]\<rparr>) \<and>
         (\<exists>r tx2 s5 evs n.
            rollBackTransaction rt saga tx
              \<lparr>world = w3, calls = calls s2 @ [ProcessCall i (cs ! k) tx]\<rparr> = (r, tx2, s5) \<and>
            execute rt saga (Some cs) options s =
              (Some (case r of None \<Rightarrow> e | Some e' \<Rightarrow> e'), Some tx2, s5) \<and>
            calls s5 = calls s1 @
              map (call_event Commit (processors saga) tx) (take (Suc k) cs) @ evs \<and>
            List.map_filter applied evs = [] \<and>
            n \<le> length cs \<and>
            List.map_filter compensated evs =
              map (\<lambda>c. (first_index (processors saga) c, c)) (take n (rev cs)) \<and>
            (r = None \<longrightarrow> n = length cs \<and> status tx2 = RolledBack))"
proof -
  define s3 where "s3 = \<lparr>world = w3, calls = calls s2 @ [ProcessCall i (cs ! k) tx]\<rparr>"
  define ps where "ps = processors saga"
  from initTransaction_Inr[OF init]
  have t: "tx = fst (new_transaction rt cs options (world s))" by simp
  have tx: "id_tx tx \<noteq> []" "commands tx = cs"
    using uuid by (auto simp: t new_transaction_fields split: option.splits)
  have i: "i = first_index ps (cs ! k)"
    using found by (simp add: first_index_def ps_def)
  have c2: "calls s2 = calls s1 @ map (call_event Commit ps tx) (take k cs)"
    using processCommands_resolved[OF before] by (simp add: ps_def)
  have pass: "processCommands ps tx Commit cs s1 = (Some e, s3)"
    unfolding s3_def ps_def by (rule processCommands_failing_step[OF k before found fails])
  then have commit: "commitTransaction rt saga tx s1 = (Some e, tx, s3)"
    using tx by (simp add: commitTransaction_cases processTransaction_def ps_def)
  obtain r tx2 s5 where rb: "rollBackTransaction rt saga tx s3 = (r, tx2, s5)"
    by (cases "rollBackTransaction rt saga tx s3")
  have ex: "execute rt saga (Some cs) options s =
              (Some (case r of None \<Rightarrow> e | Some e' \<Rightarrow> e'), Some tx2, s5)"
    using init commit rb by (simp add: execute_def split: option.splits)
  from rollBackTransaction_calls[OF tx(1) rb] obtain n evs5 where
    n: "n \<le> length cs"
       "calls s5 = calls s3 @ map (call_event RollBack ps tx) (take n (rev cs)) @ evs5"
       "List.map_filter applied evs5 = []" "List.map_filter compensated evs5 = []"
       "r = None \<longrightarrow> n = length cs"
    unfolding tx(2) ps_def by blast
  define evs where "evs = map (call_event RollBack ps tx) (take n (rev cs)) @ evs5"
  have c3: "calls s3 = calls s1 @ map (call_event Commit ps tx) (take (Suc k) cs)"
    using c2 i by (simp add: s3_def take_Suc_conv_app_nth[OF k] call_event_def)
  have c5: "calls s5 = calls s1 @ map (call_event Commit ps tx) (take (Suc k) cs) @ evs"
    using n(2) c3 by (simp add: evs_def)
  have ap: "List.map_filter applied evs = []"
    using n(3) by (simp add: evs_def map_filter_append applied_call_events)
  have co: "List.map_filter compensated evs = map (\<lambda>c. (first_index ps c, c)) (take n (rev cs))"
    using n(4) by (simp add: evs_def map_filter_append applied_call_events)
  have st: "r = None \<longrightarrow> n = length cs \<and> status tx2 = RolledBack"
    using n(5) rb rollBackTransaction_resolved by blast
  have "\<exists>r tx2 s5 evs n.
            rollBackTransaction rt saga tx s3 = (r, tx2, s5) \<and>
            execute rt saga (Some cs) options s =
              (Some (case r of None \<Rightarrow> e | Some e' \<Rightarrow> e'), Some tx2, s5) \<and>
            calls s5 = calls s1 @ map (call_event Commit ps tx) (take (Suc k) cs) @ evs \<and>
            List.map_filter applied evs = [] \<and>
            n \<le> length cs \<and>
            List.map_filter compensated evs = map (\<lambda>c. (first_index ps c, c)) (take n (rev cs)) \<and>
            (r = None \<longrightarrow> n = length cs \<and> status tx2 = RolledBack)"
    using rb ex c5 ap n(1) co st by blast
  with i c2 commit show ?thesis unfolding ps_def s3_def by simp
qed

theorem rollback_after_failed_apply_witness:
  "initTransaction rt0 saga_abc (Some [cmd ''a'', cmd ''b'', cmd ''c'']) None s0 =
     (Inr tx_abc, \<lparr>world = 1002, calls = []\<rparr>) \<and>
   fst (randomUUID rt0 (world s0)) \<noteq> [] \<and>
   (1 :: nat) < length [cmd ''a'', cmd ''b'', cmd ''c''] \<and>
   processCommands (processors saga_abc) tx_abc Commit (take 1 [cmd ''a'', cmd ''b'', cmd ''c''])
       \<lparr>world = 1002, calls = []\<rparr> =
     (None, \<lparr>world = 1002, calls = [ProcessCall 0 (cmd ''a'') tx_abc]\<rparr>) \<and>
   find_processor (processors saga_abc) ([cmd ''a'', cmd ''b'', cmd ''c''] ! 1) =
     Some (1, failing_handler ''b'') \<and>
   process (failing_handler ''b'') ([cmd ''a'', cmd ''b'', cmd ''c''] ! 1) tx_abc 1002 =
     (Some (Error ''apply failed''), 1002) \<and>
   fst (execute rt0 saga_abc (Some [cmd ''a'', cmd ''b'', cmd ''c'']) None s0) =
     Some (Error ''apply failed'') \<and>
   map_option status (fst (snd (execute rt0 saga_abc (Some [cmd ''a'', cmd ''b'', cmd ''c'']) None s0))) =
     Some RolledBack \<and>
   List.map_filter applied
       (calls (snd (snd (execute rt0 saga_abc (Some [cmd ''a'', cmd ''b'', cmd ''c'']) None s0)))) =
     [(0, cmd ''a''), (1, cmd ''b'')] \<and>
   List.map_filter compensated
       (calls (snd (snd (execute rt0 saga_abc (Some [cmd ''a'', cmd ''b'', cmd ''c'']) None s0)))) =
     [(2, cmd ''c''), (1, cmd ''b''), (0, cmd ''a'')] \<and>
   commitTransaction rt0 saga_abc (tx_abc\<lparr>commands := [cmd ''a'', cmd ''b'', cmd ''z'']\<rparr>)
       \<lparr>world = 1002, calls = []\<rparr> =
     (Some (Error ''apply failed''), tx_abc\<lparr>commands := [cmd ''a'', cmd ''b'', cmd ''z'']\<rparr>,
      \<lparr>world = 1002,
       calls = [ProcessCall 0 (cmd ''a'') (tx_abc\<lparr>commands := [cmd ''a'', cmd ''b'', cmd ''z'']\<rparr>),
                ProcessCall 1 (cmd ''b'') (tx_abc\<lparr>commands := [cmd ''a'', cmd ''b'', cmd ''z'']\<rparr>)]\<rparr>)"
proof -
  note defs = run_defs s0_def rt0_def cmd_def resolve_def reject_def HandlerAdapter_def
          ok_handler_def failing_handler_def saga_abc_def tx_abc_def
  define s5 :: "(nat, unit) state" where "s5 = \<lparr>world = 1003, calls =
     [ProcessCall 0 (cmd ''a'') tx_abc, ProcessCall 1 (cmd ''b'') tx_abc,
      RollBackCall 2 (cmd ''c'') tx_abc, RollBackCall 1 (cmd ''b'') tx_abc,
      RollBackCall 0 (cmd ''a'') tx_abc]\<rparr>"
  define tz where "tz = tx_abc\<lparr>commands := [cmd ''a'', cmd ''b'', cmd ''z'']\<rparr>"
  have h1: "initTransaction rt0 saga_abc (Some [cmd ''a'', cmd ''b'', cmd ''c'']) None s0 =
     (Inr tx_abc, \<lparr>world = 1002, calls = []\<rparr>)"
    by (simp add: defs)
  have h2: "fst (randomUUID rt0 (world s0)) \<noteq> []" by (simp add: rt0_def)
  have h3: "(1 :: nat) < length [cmd ''a'', cmd ''b'', cmd ''c'']" by simp
  have h4: "processCommands (processors saga_abc) tx_abc Commit
       (take 1 [cmd ''a'', cmd ''b'', cmd ''c'']) \<lparr>world = 1002, calls = []\<rparr> =
     (None, \<lparr>world = 1002, calls = [ProcessCall 0 (cmd ''a'') tx_abc]\<rparr>)"
    by (simp add: defs)
  have h5: "find_processor (processors saga_abc) ([cmd ''a'', cmd ''b'', cmd ''c''] ! 1) =
     Some (1, failing_handler ''b'')"
    by (simp add: defs)
  have h6: "process (failing_handler ''b'') ([cmd ''a'', cmd ''b'', cmd ''c''] ! 1) tx_abc 1002 =
     (Some (Error ''apply failed''), 1002)"
    by (simp add: defs)
  have h6': "process (failing_handler ''b'') ([cmd ''a'', cmd ''b'', cmd ''c''] ! 1) tx_abc
               (world \<lparr>world = 1002 :: nat, calls = [ProcessCall 0 (cmd ''a'') tx_abc]\<rparr>) =
     (Some (Error ''apply failed''), 1002)"
    using h6 by simp
  have h7: "rollBackTransaction rt0 saga_abc tx_abc
       \<lparr>world = 1002, calls = calls \<lparr>world = 1002 :: nat, calls = [ProcessCall 0 (cmd ''a'') tx_abc]\<rparr> @
          [ProcessCall 1 ([cmd ''a'', cmd ''b'', cmd ''c''] ! 1) tx_abc]\<rparr> =
     (None, tx_abc\<lparr>status := RolledBack, updatedAt := 1002\<rparr>, s5)"
    by (simp add: defs s5_def)
  from rollback_after_failed_apply[OF h1 h2 h3 h4 h5 h6'] h7
  have ex: "execute rt0 saga_abc (Some [cmd ''a'', cmd ''b'', cmd ''c'']) None s0 =
          (Some (Error ''apply failed''), Some (tx_abc\<lparr>status := RolledBack, updatedAt := 1002\<rparr>), s5)"
    by auto
  have c5: "List.map_filter compensated (calls s5) = [(2, cmd ''c''), (1, cmd ''b''), (0, cmd ''a'')]"
    "List.map_filter applied (calls s5) = [(0, cmd ''a''), (1, cmd ''b'')]"
    by (simp_all add: s5_def)
  have z1: "initTransaction rt0 saga_abc (Some [cmd ''a'', cmd ''b'', cmd ''z'']) None s0 =
     (Inr tz, \<lparr>world = 1002, calls = []\<rparr>)"
    by (simp add: defs tz_def)
  have z3: "(1 :: nat) < length [cmd ''a'', cmd ''b'', cmd ''z'']" by simp
  have z4: "processCommands (processors saga_abc) tz Commit
       (take 1 [cmd ''a'', cmd ''b'', cmd ''z'']) \<lparr>world = 1002, calls = []\<rparr> =
     (None, \<lparr>world = 1002, calls = [ProcessCall 0 (cmd ''a'') tz]\<rparr>)"
    by (simp add: defs tz_def)
  have z5: "find_processor (processors saga_abc) ([cmd ''a'', cmd ''b'', cmd ''z''] ! 1) =
     Some (1, failing_handler ''b'')"
    by (simp add: defs)
  have z6: "process (failing_handler ''b'') ([cmd ''a'', cmd ''b'', cmd ''z''] ! 1) tz
               (world \<lparr>world = 1002 :: nat, calls = [ProcessCall 0 (cmd ''a'') tz]\<rparr>) =
     (Some (Error ''apply failed''), 1002)"
    by (simp add: defs)
  from rollback_after_failed_apply[OF z1 h2 z3 z4 z5 z6]
  have cz: "commitTransaction rt0 saga_abc tz \<lparr>world = 1002, calls = []\<rparr> =
     (Some (Error ''apply failed''), tz,
      \<lparr>world = 1002, calls = [ProcessCall 0 (cmd ''a'') tz, ProcessCall 1 (cmd ''b'') tz]\<rparr>)"
    by simp
  from ex c5 cz h1 h2 h3 h4 h5 h6 show ?thesis by (simp add: tz_def)
qed

text \<open>
  C2 as stated fails. With the commands a, b, c and the apply step of b rejecting, apply
  is called for a and b, and compensate is called for c, b and a: also for c, which was
  never attempted. With a third command that no processor accepts, the rollback stops at
  that command before any compensate call, and \<^verbatim>\<open>execute\<close> rejects with the routing error
  of the rollback instead of the error of b's apply step.
\<close>

theorem rollback_after_failed_apply_counterexample:
  "fst (execute rt0 saga_abc (Some [cmd ''a'', cmd ''b'', cmd ''c'']) None s0) =
     Some (Error ''apply failed'') \<and>
   List.map_filter applied
       (calls (snd (snd (execute rt0 saga_abc (Some [cmd ''a'', cmd ''b'', cmd ''c'']) None s0)))) =
     [(0, cmd ''a''), (1, cmd ''b'')] \<and>
   List.map_filter compensated
       (calls (snd (snd (execute rt0 saga_abc (Some [cmd ''a'', cmd ''b'', cmd ''c'']) None s0)))) =
     [(2, cmd ''c''), (1, cmd ''b''), (0, cmd ''a'')] \<and>
   List.map_filter applied
       (calls (snd (snd (execute rt0 saga_abc (Some [cmd ''a'', cmd ''b'', cmd ''z'']) None s0)))) =
     [(0, cmd ''a''), (1, cmd ''b'')] \<and>
   List.map_filter compensated
       (calls (snd (snd (execute rt0 saga_abc (Some [cmd ''a'', cmd ''b'', cmd ''z'']) None s0)))) =
     [] \<and>
   fst (execute rt0 saga_abc (Some [cmd ''a'', cmd ''b'', cmd ''z'']) None s0) =
     Some (NoProcessorFoundError ''No processor found for command: Object'')"
  by (simp add: run_defs s0_def rt0_def cmd_def resolve_def reject_def HandlerAdapter_def
        ok_handler_def failing_handler_def saga_abc_def)

lemma processCommands_unmatched:
  assumes "\<forall>p\<in>set ps. \<not> canProcess p c" and "c \<in> set cs"
  shows "fst (processCommands ps tx a cs s) \<noteq> None"
proof
  assume "fst (processCommands ps tx a cs s) = None"
  then obtain s' where "processCommands ps tx a cs s = (None, s')"
    by (cases "processCommands ps tx a cs s") auto
  from processCommands_resolved[OF this] assms(2) have "find_processor ps c \<noteq> None" by blast
  with assms(1) show False by (simp add: find_processor_None)
qed

lemma processCommands_routing_error:
  assumes none: "\<forall>p\<in>set ps. \<not> canProcess p (cs ! k)"
      and k: "k < length cs"
      and before: "processCommands ps tx a (take k cs) s = (None, s2)"
  shows "processCommands ps tx a cs s = (Some (new_NoProcessorFoundError (cs ! k)), s2)"
proof -
  from none have f: "find_processor ps (cs ! k) = None" by (simp add: find_processor_None)
  have "processCommands ps tx a (take k cs @ cs ! k # drop (Suc k) cs) s =
          (Some (new_NoProcessorFoundError (cs ! k)), s2)"
    unfolding processCommands_append using before f by simp
  then show ?thesis using id_take_nth_drop[OF k] by simp
qed

text \<open>
  C3 (as amended). Let \<open>c\<close> be a command that no registered processor accepts. A commit
  that reaches \<open>c\<close> (the apply steps of the commands before it resolve) rejects with the
  routing error for \<open>c\<close>, leaving the transaction as it was; an \<^verbatim>\<open>execute\<close> of any list
  containing \<open>c\<close> rejects. The message of the routing error is
  \<^verbatim>\<open>No processor found for command: \<close> followed by the name of the command's constructor
  (\<^verbatim>\<open>Object\<close> for an object literal), or by \<^verbatim>\<open>object\<close> when there is none: it does not
  carry the \<^verbatim>\<open>type\<close> field. For the single command \<open>c\<close>, \<^verbatim>\<open>execute\<close> rejects with that routing
  error and makes no apply and no compensate call.
\<close>

theorem no_processor_found:
  assumes none: "\<forall>p\<in>set (processors saga). \<not> canProcess p c"
  shows "(id_tx tx \<noteq> [] \<and> k < length (commands tx) \<and> commands tx ! k = c \<and>
          processCommands (processors saga) tx Commit (take k (commands tx)) s = (None, s2) \<longrightarrow>
            commitTransaction rt saga tx s = (Some (new_NoProcessorFoundError c), tx, s2)) \<and>
         (c \<in> set cs \<longrightarrow> fst (execute rt saga (Some cs) options s) \<noteq> None) \<and>
         (\<forall>tx1 s1. initTransaction rt saga (Some [c]) options s = (Inr tx1, s1) \<and>
                   fst (randomUUID rt (world s)) \<noteq> [] \<longrightarrow>
            execute rt saga (Some [c]) options s =
              (Some (new_NoProcessorFoundError c), Some tx1, s1) \<and>
            List.map_filter applied (calls s1) = List.map_filter applied (calls s) \<and>
            List.map_filter compensated (calls s1) = List.map_filter compensated (calls s)) \<and>
         new_NoProcessorFoundError c =
           NoProcessorFoundError (''No processor found for command: '' @
             (case constructor_name c of
                Some n \<Rightarrow> if n = [] then ''object'' else n
              | None \<Rightarrow> ''object''))"
proof -
  have a: "commitTransaction rt saga tx s = (Some (new_NoProcessorFoundError c), tx, s2)"
    if "id_tx tx \<noteq> []" "k < length (commands tx)" "commands tx ! k = c"
       "processCommands (processors saga) tx Commit (take k (commands tx)) s = (None, s2)"
  proof -
    from none that(3) have "\<forall>p\<in>set (processors saga). \<not> canProcess p (commands tx ! k)" by simp
    from processCommands_routing_error[OF this that(2) that(4)] that(1,3)
    show ?thesis by (simp add: commitTransaction_cases processTransaction_def)
  qed
  have b: "fst (execute rt saga (Some cs) options s) \<noteq> None" if "c \<in> set cs"
  proof (cases "initTransaction rt saga (Some cs) options s")
    case (Pair r s1)
    show ?thesis
    proof (cases r)
      case (Inl e)
      with Pair show ?thesis by (simp add: execute_def)
    next
      case (Inr tx1)
      from initTransaction_Inr[OF Pair[unfolded Inr]] have "commands tx1 = cs"
        by (auto simp: new_transaction_fields)
      with that none have "fst (processCommands (processors saga) tx1 Commit (commands tx1) s1) \<noteq> None"
        by (simp add: processCommands_unmatched)
      then have "fst (processTransaction saga tx1 Commit s1) \<noteq> None"
        by (simp add: processTransaction_def)
      then have "fst (commitTransaction rt saga tx1 s1) \<noteq> None"
        by (auto simp: commitTransaction_cases split: prod.splits option.splits)
      with Pair Inr show ?thesis
        by (auto simp: execute_def split: prod.splits option.splits)
    qed
  qed
  have c: "execute rt saga (Some [c]) options s = (Some (new_NoProcessorFoundError c), Some tx1, s1) \<and>
            List.map_filter applied (calls s1) = List.map_filter applied (calls s) \<and>
            List.map_filter compensated (calls s1) = List.map_filter compensated (calls s)"
    if i: "initTransaction rt saga (Some [c]) options s = (Inr tx1, s1)"
      and u: "fst (randomUUID rt (world s)) \<noteq> []" for tx1 s1
  proof -
    from initTransaction_Inr[OF i] have t: "tx1 = fst (new_transaction rt [c] options (world s))"
      by simp
    have tx: "id_tx tx1 \<noteq> []" "commands tx1 = [c]"
      using u by (auto simp: t new_transaction_fields split: option.splits)
    from none have f: "find_processor (processors saga) c = None" by (simp add: find_processor_None)
    have "commitTransaction rt saga tx1 s1 = (Some (new_NoProcessorFoundError c), tx1, s1)"
      using tx f by (simp add: commitTransaction_cases processTransaction_def)
    moreover have "rollBackTransaction rt saga tx1 s1 = (Some (new_NoProcessorFoundError c), tx1, s1)"
      using tx f by (simp add: rollBackTransaction_cases processTransaction_def)
    ultimately have "execute rt saga (Some [c]) options s =
        (Some (new_NoProcessorFoundError c), Some tx1, s1)"
      using i by (simp add: execute_def)
    moreover have "List.map_filter applied (calls s1) = List.map_filter applied (calls s) \<and>
            List.map_filter compensated (calls s1) = List.map_filter compensated (calls s)"
      using i unfolding initTransaction_nonempty[of "[c]", simplified]
      by (cases "repository saga") (auto simp: Let_def map_filter_append)
    ultimately show ?thesis by simp
  qed
  from a b c show ?thesis by (simp add: new_NoProcessorFoundError_def)
qed

theorem no_processor_found_witness:
  "execute rt0 saga_empty (Some [cmd ''unknown'']) None s0 =
     (Some (NoProcessorFoundError ''No processor found for command: Object''),
      Some (tx_generated\<lparr>commands := [cmd ''unknown'']\<rparr>), \<lparr>world = 1002, calls = []\<rparr>)"
proof -
  have n: "\<forall>p\<in>set (processors saga_empty). \<not> canProcess p (cmd ''unknown'')"
    by (simp add: saga_empty_def)
  have i: "initTransaction rt0 saga_empty (Some [cmd ''unknown'']) None s0 =
     (Inr (tx_generated\<lparr>commands := [cmd ''unknown'']\<rparr>), \<lparr>world = 1002, calls = []\<rparr>)"
    by (simp add: run_defs s0_def rt0_def cmd_def saga_empty_def tx_generated_def)
  have u: "fst (randomUUID rt0 (world s0)) \<noteq> []" by (simp add: rt0_def)
  from no_processor_found[OF n, where rt = rt0 and s = s0 and options = None] i u
  have "execute rt0 saga_empty (Some [cmd ''unknown'']) None s0 =
     (Some (new_NoProcessorFoundError (cmd ''unknown'')),
      Some (tx_generated\<lparr>commands := [cmd ''unknown'']\<rparr>), \<lparr>world = 1002, calls = []\<rparr>)"
    by blast
  then show ?thesis by (simp add: new_NoProcessorFoundError_def cmd_def)
qed

text \<open>
  C3 as stated fails on the message: for the object literal with type \<^verbatim>\<open>unknown\<close> and no
  registered processor, the message of the error that \<^verbatim>\<open>execute\<close> rejects with names
  \<^verbatim>\<open>Object\<close> and does not contain \<^verbatim>\<open>unknown\<close>.
\<close>

theorem no_processor_found_counterexample:
  "type (cmd ''unknown'') = Some ''unknown'' \<and>
   map_option message (fst (execute rt0 saga_empty (Some [cmd ''unknown'']) None s0)) =
     Some ''No processor found for command: Object'' \<and>
   \<not> mentions ''unknown'' ''No processor found for command: Object''"
  by (simp add: run_defs s0_def rt0_def cmd_def saga_empty_def message_def mentions_def upt_rec)

section \<open>First-match dispatch\<close>











section \<open>The storage port\<close>

lemma query_call_event: "\<not> is_query_call (call_event a ps tx c)"
  by (cases a) (simp_all add: call_event_def)

lemma initTransaction_no_query:
  "\<exists>evs. calls (snd (initTransaction rt saga cmds options s)) = calls s @ evs \<and>
         \<not> list_ex is_query_call evs"
proof (cases "\<exists>cs. cmds = Some cs \<and> cs \<noteq> []")
  case True
  then obtain cs where cs: "cmds = Some cs" "cs \<noteq> []" by blast
  show ?thesis unfolding cs(1) initTransaction_nonempty[OF cs(2)]
    by (cases "repository saga") (simp_all add: Let_def)
next
  case False
  then have "snd (initTransaction rt saga cmds options s) = s"
    by (cases cmds) (auto simp: initTransaction_def)
  then show ?thesis by simp
qed

lemma processTransaction_no_query:
  "\<exists>evs. calls (snd (processTransaction saga tx a s)) = calls s @ evs \<and>
         \<not> list_ex is_query_call evs"
proof (cases "id_tx tx = []")
  case True
  then show ?thesis by (simp add: processTransaction_def)
next
  case False
  define cs where "cs = (case a of RollBack \<Rightarrow> rev (commands tx) | Commit \<Rightarrow> commands tx)"
  obtain r s' where p: "processCommands (processors saga) tx a cs s = (r, s')"
    by (cases "processCommands (processors saga) tx a cs s")
  from processCommands_calls[OF p] obtain n where
    "calls s' = calls s @ map (call_event a (processors saga) tx) (take n cs)" by blast
  moreover have "\<not> list_ex is_query_call (map (call_event a (processors saga) tx) (take n cs))"
    by (simp add: list_ex_iff query_call_event)
  ultimately show ?thesis using False p by (auto simp: processTransaction_def cs_def)
qed

lemma settle_no_query:
  "\<exists>evs. calls (snd (snd (settle rt saga tx st s))) = calls s @ evs \<and> \<not> list_ex is_query_call evs"
  by (cases "repository saga") (simp_all add: settle_def Let_def)

lemma no_query_trans:
  assumes "\<exists>evs. calls s1 = calls s @ evs \<and> \<not> list_ex is_query_call evs"
      and "\<exists>evs. calls s2 = calls s1 @ evs \<and> \<not> list_ex is_query_call evs"
  shows "\<exists>evs. calls s2 = calls s @ evs \<and> \<not> list_ex is_query_call evs"
proof -
  from assms obtain e1 e2 where "calls s1 = calls s @ e1" "\<not> list_ex is_query_call e1"
    "calls s2 = calls s1 @ e2" "\<not> list_ex is_query_call e2" by blast
  then have "calls s2 = calls s @ (e1 @ e2) \<and> \<not> list_ex is_query_call (e1 @ e2)" by simp
  then show ?thesis by blast
qed

lemma commitTransaction_no_query:
  "\<exists>evs. calls (snd (snd (commitTransaction rt saga tx s))) = calls s @ evs \<and>
         \<not> list_ex is_query_call evs"
proof (cases "processTransaction saga tx Commit s")
  case (Pair r s1)
  from processTransaction_no_query[of saga tx Commit s] Pair
  have p: "\<exists>evs. calls s1 = calls s @ evs \<and> \<not> list_ex is_query_call evs" by simp
  show ?thesis
  proof (cases r)
    case None
    with Pair have "commitTransaction rt saga tx s = settle rt saga tx Completed s1"
      by (simp add: commitTransaction_cases)
    with no_query_trans[OF p settle_no_query[of rt saga tx Completed s1]] show ?thesis by simp
  next
    case (Some e)
    with Pair p show ?thesis by (simp add: commitTransaction_cases)
  qed
qed

lemma rollBackTransaction_no_query:
  "\<exists>evs. calls (snd (snd (rollBackTransaction rt saga tx s))) = calls s @ evs \<and>
         \<not> list_ex is_query_call evs"
proof (cases "processTransaction saga tx RollBack s")
  case (Pair r s1)
  from processTransaction_no_query[of saga tx RollBack s] Pair
  have p: "\<exists>evs. calls s1 = calls s @ evs \<and> \<not> list_ex is_query_call evs" by simp
  show ?thesis
  proof (cases r)
    case None
    with Pair have "rollBackTransaction rt saga tx s = settle rt saga tx RolledBack s1"
      by (simp add: rollBackTransaction_cases)
    with no_query_trans[OF p settle_no_query[of rt saga tx RolledBack s1]] show ?thesis by simp
  next
    case (Some e)
    with Pair p show ?thesis by (simp add: rollBackTransaction_cases)
  qed
qed

lemma execute_no_query:
  "\<exists>evs. calls (snd (snd (execute rt saga cmds options s))) = calls s @ evs \<and>
         \<not> list_ex is_query_call evs"
proof (cases "initTransaction rt saga cmds options s")
  case (Pair r s1)
  from initTransaction_no_query[of rt saga cmds options s] Pair
  have i: "\<exists>evs. calls s1 = calls s @ evs \<and> \<not> list_ex is_query_call evs" by simp
  show ?thesis
  proof (cases r)
    case (Inl e)
    with Pair i show ?thesis by (simp add: execute_def)
  next
    case (Inr tx)
    obtain r1 tx1 s2 where c: "commitTransaction rt saga tx s1 = (r1, tx1, s2)"
      by (cases "commitTransaction rt saga tx s1")
    from commitTransaction_no_query[of rt saga tx s1] c
    have "\<exists>evs. calls s2 = calls s1 @ evs \<and> \<not> list_ex is_query_call evs" by simp
    from no_query_trans[OF i this]
    have ic: "\<exists>evs. calls s2 = calls s @ evs \<and> \<not> list_ex is_query_call evs" .
    show ?thesis
    proof (cases r1)
      case None
      with Pair Inr c ic show ?thesis by (simp add: execute_def)
    next
      case (Some e)
      obtain r2 tx2 s3 where b: "rollBackTransaction rt saga tx1 s2 = (r2, tx2, s3)"
        by (cases "rollBackTransaction rt saga tx1 s2")
      from rollBackTransaction_no_query[of rt saga tx1 s2] b
      have "\<exists>evs. calls s3 = calls s2 @ evs \<and> \<not> list_ex is_query_call evs" by simp
      from no_query_trans[OF ic this] Pair Inr c Some b show ?thesis
        by (cases r2) (simp_all add: execute_def)
    qed
  qed
qed

lemma commitTransaction_stored:
  assumes repo: "repository saga = Some repo"
      and c: "commitTransaction rt saga tx s = (None, tx', s')"
  shows "status tx' = Completed \<and>
         (\<exists>s1. processTransaction saga tx Commit s = (None, s1) \<and>
               updatedAt tx' = fst (now rt (world s1))) \<and>
         calls s' = calls s @ map (call_event Commit (processors saga) tx) (commands tx) @
           [FindByIdAndUpdateCall (id_tx tx) \<lparr>upd_status = Completed, upd_updatedAt = updatedAt tx'\<rparr>]"
proof -
  from c obtain s1 where p: "processTransaction saga tx Commit s = (None, s1)"
    and st: "settle rt saga tx Completed s1 = (None, tx', s')"
    unfolding commitTransaction_cases by (auto split: prod.splits option.splits)
  from p have "processCommands (processors saga) tx Commit (commands tx) s = (None, s1)"
    by (auto simp: processTransaction_def split: if_splits)
  from processCommands_resolved[OF this]
  have c1: "calls s1 = calls s @ map (call_event Commit (processors saga) tx) (commands tx)" by simp
  from settle_transaction[OF st] have t: "tx' = tx\<lparr>status := Completed, updatedAt := fst (now rt (world s1))\<rparr>" .
  from settle_calls[OF st] repo t c1 p show ?thesis by auto
qed

lemma rollBackTransaction_stored:
  assumes repo: "repository saga = Some repo"
      and c: "rollBackTransaction rt saga tx s = (None, tx', s')"
  shows "status tx' = RolledBack \<and>
         (\<exists>s1. processTransaction saga tx RollBack s = (None, s1) \<and>
               updatedAt tx' = fst (now rt (world s1))) \<and>
         calls s' = calls s @ map (call_event RollBack (processors saga) tx) (rev (commands tx)) @
           [FindByIdAndUpdateCall (id_tx tx) \<lparr>upd_status = RolledBack, upd_updatedAt = updatedAt tx'\<rparr>]"
proof -
  from c obtain s1 where p: "processTransaction saga tx RollBack s = (None, s1)"
    and st: "settle rt saga tx RolledBack s1 = (None, tx', s')"
    unfolding rollBackTransaction_cases by (auto split: prod.splits option.splits)
  from p have "processCommands (processors saga) tx RollBack (rev (commands tx)) s = (None, s1)"
    by (auto simp: processTransaction_def split: if_splits)
  from processCommands_resolved[OF this]
  have c1: "calls s1 = calls s @ map (call_event RollBack (processors saga) tx) (rev (commands tx))" by simp
  from settle_transaction[OF st] have t: "tx' = tx\<lparr>status := RolledBack, updatedAt := fst (now rt (world s1))\<rparr>" .
  from settle_calls[OF st] repo t c1 p show ?thesis by auto
qed

text \<open>
  C9 (as amended). With a storage port configured: every call of \<^verbatim>\<open>initTransaction\<close> with a
  non-empty command list calls \<^verbatim>\<open>create\<close> exactly once, with the new transaction (the one it
  returns when \<^verbatim>\<open>create\<close> resolves); every commit and every rollback that resolves has
  called \<^verbatim>\<open>findByIdAndUpdate\<close> exactly once, after its pass, with the transaction's id, the
  final status (Completed, RolledBack) and the date just read from the clock and written
  to \<^verbatim>\<open>updatedAt\<close>; and no run of \<^verbatim>\<open>execute\<close>, \<^verbatim>\<open>initTransaction\<close>, \<^verbatim>\<open>commitTransaction\<close> or
  \<^verbatim>\<open>rollBackTransaction\<close> calls \<^verbatim>\<open>findById\<close>, \<^verbatim>\<open>deleteById\<close> or \<^verbatim>\<open>findByStatus\<close>.
\<close>

theorem storage_port_calls:
  assumes repo: "repository saga = Some repo"
  shows "(cs \<noteq> [] \<longrightarrow>
            calls (snd (initTransaction rt saga (Some cs) options s)) =
              calls s @ [CreateCall (fst (new_transaction rt cs options (world s)))] \<and>
            (\<forall>t s'. initTransaction rt saga (Some cs) options s = (Inr t, s') \<longrightarrow>
               t = fst (new_transaction rt cs options (world s)))) \<and>
         (\<forall>tx' s'. commitTransaction rt saga tx s = (None, tx', s') \<longrightarrow>
            status tx' = Completed \<and>
            (\<exists>s1. processTransaction saga tx Commit s = (None, s1) \<and>
                  updatedAt tx' = fst (now rt (world s1))) \<and>
            calls s' = calls s @ map (call_event Commit (processors saga) tx) (commands tx) @
              [FindByIdAndUpdateCall (id_tx tx)
                 \<lparr>upd_status = Completed, upd_updatedAt = updatedAt tx'\<rparr>]) \<and>
         (\<forall>tx' s'. rollBackTransaction rt saga tx s = (None, tx', s') \<longrightarrow>
            status tx' = RolledBack \<and>
            (\<exists>s1. processTransaction saga tx RollBack s = (None, s1) \<and>
                  updatedAt tx' = fst (now rt (world s1))) \<and>
            calls s' = calls s @ map (call_event RollBack (processors saga) tx) (rev (commands tx)) @
              [FindByIdAndUpdateCall (id_tx tx)
                 \<lparr>upd_status = RolledBack, upd_updatedAt = updatedAt tx'\<rparr>]) \<and>
         (\<exists>evs. calls (snd (snd (execute rt saga cmds options s))) = calls s @ evs \<and>
            \<not> list_ex is_query_call evs) \<and>
         (\<exists>evs. calls (snd (initTransaction rt saga cmds options s)) = calls s @ evs \<and>
            \<not> list_ex is_query_call evs) \<and>
         (\<exists>evs. calls (snd (snd (commitTransaction rt saga tx s))) = calls s @ evs \<and>
            \<not> list_ex is_query_call evs) \<and>
         (\<exists>evs. calls (snd (snd (rollBackTransaction rt saga tx s))) = calls s @ evs \<and>
            \<not> list_ex is_query_call evs)"
proof -
  have a: "calls (snd (initTransaction rt saga (Some cs) options s)) =
              calls s @ [CreateCall (fst (new_transaction rt cs options (world s)))] \<and>
            (\<forall>t s'. initTransaction rt saga (Some cs) options s = (Inr t, s') \<longrightarrow>
               t = fst (new_transaction rt cs options (world s)))" if "cs \<noteq> []"
    using repo initTransaction_Inr[of rt saga "Some cs" options s]
    unfolding initTransaction_nonempty[OF that] by (auto simp: Let_def)
  from a commitTransaction_stored[OF repo] rollBackTransaction_stored[OF repo]
    execute_no_query[of rt saga cmds options s] initTransaction_no_query[of rt saga cmds options s]
    commitTransaction_no_query[of rt saga tx s] rollBackTransaction_no_query[of rt saga tx s]
  show ?thesis by blast
qed

theorem storage_port_calls_witness:
  "repository saga_stored = Some ok_repository \<and>
   calls (snd (initTransaction rt0 saga_stored (Some [cmd ''a'']) None s0)) = [CreateCall tx_generated] \<and>
   commitTransaction rt0 saga_stored tx_generated \<lparr>world = 1002, calls = [CreateCall tx_generated]\<rparr> =
     (None, tx_generated\<lparr>status := Completed, updatedAt := 1002\<rparr>,
      \<lparr>world = 1003,
       calls = [CreateCall tx_generated, ProcessCall 0 (cmd ''a'') tx_generated,
                FindByIdAndUpdateCall ''3b241101-e2bb-4255-8caf-4136c566a962''
                  \<lparr>upd_status = Completed, upd_updatedAt = 1002\<rparr>]\<rparr>) \<and>
   calls (snd (snd (rollBackTransaction rt0 saga_stored tx_generated
                      \<lparr>world = 1002, calls = [CreateCall tx_generated]\<rparr>))) =
     [CreateCall tx_generated, RollBackCall 0 (cmd ''a'') tx_generated,
      FindByIdAndUpdateCall ''3b241101-e2bb-4255-8caf-4136c566a962''
        \<lparr>upd_status = RolledBack, upd_updatedAt = 1002\<rparr>]"
proof -
  have h: "repository saga_stored = Some ok_repository" by (simp add: saga_stored_def)
  note t = storage_port_calls[OF h, where rt = rt0 and s = s0 and cs = "[cmd ''a'']"
      and options = None and tx = tx_generated]
  have n: "fst (new_transaction rt0 [cmd ''a''] None (world s0)) = tx_generated"
    by (simp add: new_transaction_def s0_def rt0_def cmd_def resolve_def HandlerAdapter_def
          ok_handler_def ok_repository_def saga_stored_def tx_generated_def Let_def)
  from t n have a: "calls (snd (initTransaction rt0 saga_stored (Some [cmd ''a'']) None s0)) =
      [CreateCall tx_generated]"
    by (simp add: s0_def)
  have c: "commitTransaction rt0 saga_stored tx_generated
             \<lparr>world = 1002, calls = [CreateCall tx_generated]\<rparr> =
     (None, tx_generated\<lparr>status := Completed, updatedAt := 1002\<rparr>,
      \<lparr>world = 1003,
       calls = [CreateCall tx_generated, ProcessCall 0 (cmd ''a'') tx_generated,
                FindByIdAndUpdateCall ''3b241101-e2bb-4255-8caf-4136c566a962''
                  \<lparr>upd_status = Completed, upd_updatedAt = 1002\<rparr>]\<rparr>)"
    by (simp add: run_defs s0_def rt0_def cmd_def resolve_def HandlerAdapter_def ok_handler_def
          ok_repository_def saga_stored_def tx_generated_def)
  have r: "rollBackTransaction rt0 saga_stored tx_generated
             \<lparr>world = 1002, calls = [CreateCall tx_generated]\<rparr> =
     (None, tx_generated\<lparr>status := RolledBack, updatedAt := 1002\<rparr>,
      \<lparr>world = 1003,
       calls = [CreateCall tx_generated, RollBackCall 0 (cmd ''a'') tx_generated,
                FindByIdAndUpdateCall ''3b241101-e2bb-4255-8caf-4136c566a962''
                  \<lparr>upd_status = RolledBack, upd_updatedAt = 1002\<rparr>]\<rparr>)"
    by (simp add: run_defs s0_def rt0_def cmd_def resolve_def HandlerAdapter_def ok_handler_def
          ok_repository_def saga_stored_def tx_generated_def)
  from h a c r show ?thesis by simp
qed

text \<open>
  C9 as stated fails for the calls of \<^verbatim>\<open>initTransaction\<close> that the validation rejects: with
  a storage port configured, a call with an empty or a null command list makes no
  \<^verbatim>\<open>create\<close> call.
\<close>

theorem storage_port_calls_counterexample:
  "repository saga_stored = Some ok_repository \<and>
   calls (snd (initTransaction rt0 saga_stored (Some []) None s0)) = [] \<and>
   calls (snd (initTransaction rt0 saga_stored None None s0)) = []"
  by (simp add: initTransaction_def saga_stored_def s0_def)

end
